theory Spec2Isabelle
  imports Main "HOL-Library.Multiset"
begin

section \<open>Data model (engine/types.ts)\<close>

datatype Suit = Hearts | Diamonds | Clubs | Spades

datatype Rank = R7 | R8 | R9 | R10 | RJ | RQ | RK | RA

record Card =
  suit :: Suit
  rank :: Rank

datatype PlayerId = North | East | South | West

datatype TeamId = Team1 | Team2

text \<open>
  \<open>Suit\<close> and \<open>Rank\<close> are string literal types in the source; \<open>suitName\<close>
  and \<open>rankName\<close> give the string each constructor stands for at run time.
\<close>

fun suitName :: "Suit \<Rightarrow> string" where
  "suitName Hearts = ''hearts''"
| "suitName Diamonds = ''diamonds''"
| "suitName Clubs = ''clubs''"
| "suitName Spades = ''spades''"

fun rankName :: "Rank \<Rightarrow> string" where
  "rankName R7 = ''7''"
| "rankName R8 = ''8''"
| "rankName R9 = ''9''"
| "rankName R10 = ''10''"
| "rankName RJ = ''J''"
| "rankName RQ = ''Q''"
| "rankName RK = ''K''"
| "rankName RA = ''A''"

text \<open>\<open>RANK_ORDER.indexOf(rank)\<close> with \<open>RANK_ORDER = ['7','8','9','10','J','Q','K','A']\<close>.\<close>

fun getRankIndex :: "Rank \<Rightarrow> int" where
  "getRankIndex R7 = 0"
| "getRankIndex R8 = 1"
| "getRankIndex R9 = 2"
| "getRankIndex R10 = 3"
| "getRankIndex RJ = 4"
| "getRankIndex RQ = 5"
| "getRankIndex RK = 6"
| "getRankIndex RA = 7"

text \<open>\<open>CARD_VALUES\<close>.\<close>

fun CARD_VALUES :: "Rank \<Rightarrow> int" where
  "CARD_VALUES R7 = 0"
| "CARD_VALUES R8 = 0"
| "CARD_VALUES R9 = 0"
| "CARD_VALUES R10 = 10"
| "CARD_VALUES RJ = 2"
| "CARD_VALUES RQ = 3"
| "CARD_VALUES RK = 4"
| "CARD_VALUES RA = 11"

definition PLAYER_ORDER :: "PlayerId list" where
  "PLAYER_ORDER = [North, East, South, West]"

text \<open>
  \<open>getPlayerTeam\<close> is also applied to \<open>trick.winner!\<close>, which is \<open>null\<close> at run time
  for an unfinished trick; \<open>null\<close> is neither \<open>'north'\<close> nor \<open>'south'\<close>, so the
  source answers \<open>'team2'\<close> there. \<open>getPlayerTeamOpt\<close> is that reading.
\<close>

fun getPlayerTeam :: "PlayerId \<Rightarrow> TeamId" where
  "getPlayerTeam p = (if p = North \<or> p = South then Team1 else Team2)"

fun getPlayerTeamOpt :: "PlayerId option \<Rightarrow> TeamId" where
  "getPlayerTeamOpt w = (if w = Some North \<or> w = Some South then Team1 else Team2)"

text \<open>\<open>PLAYER_ORDER[(idx + 1) % 4]\<close>.\<close>

fun getNextPlayer :: "PlayerId \<Rightarrow> PlayerId" where
  "getNextPlayer North = East"
| "getNextPlayer East = South"
| "getNextPlayer South = West"
| "getNextPlayer West = North"

subsection \<open>Card text encoding\<close>

text \<open>
  JavaScript's \<open>toUpperCase\<close> and \<open>toLowerCase\<close> on the ASCII range (every string
  the engine builds is ASCII).
\<close>

definition toUpperChar :: "char \<Rightarrow> char" where
  "toUpperChar c =
     (let n = (of_char c :: nat) in if 97 \<le> n \<and> n \<le> 122 then char_of (n - 32) else c)"

definition toLowerChar :: "char \<Rightarrow> char" where
  "toLowerChar c =
     (let n = (of_char c :: nat) in if 65 \<le> n \<and> n \<le> 90 then char_of (n + 32) else c)"

definition toUpperCase :: "string \<Rightarrow> string" where
  "toUpperCase s = map toUpperChar s"

definition toLowerCase :: "string \<Rightarrow> string" where
  "toLowerCase s = map toLowerChar s"

text \<open>
  \<open>cardToString\<close>: the rank followed by the upper-cased first character of the suit
  name (\<open>card.suit[0]\<close>; no suit name is empty).
\<close>

definition cardToString :: "Card \<Rightarrow> string" where
  "cardToString c = rankName (rank c) @ toUpperCase (take 1 (suitName (suit c)))"

text \<open>
  \<open>stringToCard\<close> casts two substrings to \<open>Rank\<close> and \<open>Suit\<close> without checking
  them, so its result is a pair of raw strings. \<open>str.slice(0, -1)\<close> drops the last
  character, \<open>str.slice(-1)\<close> keeps only the last one.
\<close>

record RawCard =
  raw_rank :: string
  raw_suit :: string

definition stringToCard :: "string \<Rightarrow> RawCard" where
  "stringToCard str =
     \<lparr> raw_rank = butlast str,
       raw_suit = toLowerCase (if str = [] then [] else [last str]) \<rparr>"

text \<open>The run-time value of a well-typed \<open>Card\<close>.\<close>

definition cardValue :: "Card \<Rightarrow> RawCard" where
  "cardValue c = \<lparr> raw_rank = rankName (rank c), raw_suit = suitName (suit c) \<rparr>"

subsection \<open>Tricks, bids, declarations, events, state\<close>

text \<open>One entry of \<open>Trick.cards\<close>: \<open>{ playerId, card }\<close>.\<close>

record TrickCard =
  playerId :: PlayerId
  played_card :: Card

record Trick =
  cards :: "TrickCard list"
  winner :: "PlayerId option"
  points :: int

record TrumpCall =
  call_suit :: Suit
  call_playerId :: PlayerId
  level :: int

datatype DeclarationType = Bela | Tierce | Quarte | Quint | Belot

record Declaration =
  decl_type :: DeclarationType
  decl_playerId :: PlayerId
  decl_cards :: "Card list"
  decl_points :: int

record Player =
  player_id :: PlayerId
  name :: string
  team :: TeamId
  hand :: "Card list"
  isDeclarer :: bool

datatype Phase = Deal | Bidding | DealerChoice | Play | Scoring | GameOver

record GameConfig =
  mustFollowSuit :: bool
  mustTrumpWhenVoid :: bool
  overtrumpRequired :: bool
  declarationsEnabled :: bool
  lastTrickBonus :: bool
  matchTargetScore :: int

text \<open>\<open>Record<TeamId, number>\<close>.\<close>

record Scores =
  team1 :: int
  team2 :: int

text \<open>The value \<open>endOfHandScoring\<close> returns.\<close>

record ScoringResult =
  res_handScores :: Scores
  res_matchScores :: Scores
  contractBonus :: int

text \<open>
  An event of the log. Its \<open>id\<close> and \<open>timestamp\<close> come from the clock and the
  random generator and are read by no function of the engine; they are left out.
\<close>

datatype EventType = Ev_bid | Ev_pass | Ev_play_card | Ev_trick_complete | Ev_hand_complete

datatype EventData =
    NullData
  | CardData Card
  | BidData TrumpCall
  | TrickData PlayerId int
  | ScoresData ScoringResult

record GameEvent =
  event_type :: EventType
  event_playerId :: "PlayerId option"
  event_data :: EventData

record GameState =
  phase :: Phase
  deck :: "Card list"
  players :: "PlayerId \<Rightarrow> Player"
  currentPlayer :: PlayerId
  declarer :: "PlayerId option"
  trump :: "Suit option"
  currentTrick :: Trick
  tricks :: "Trick list"
  currentBid :: "TrumpCall option"
  bids :: "TrumpCall list"
  declarations :: "Declaration list"
  handScores :: Scores
  matchScores :: Scores
  events :: "GameEvent list"
  config :: GameConfig
  dealer :: PlayerId
  talon :: "Card list"

text \<open>What the engine throws: the two \<open>Error\<close>s it raises itself and the \<open>TypeError\<close>
  of reading a property of \<open>undefined\<close>.\<close>

datatype error = CardNotInHand | EmptyTrick | TypeError

section \<open>Rules engine (engine/rules.ts)\<close>

definition DEFAULT_CONFIG :: GameConfig where
  "DEFAULT_CONFIG =
     \<lparr> mustFollowSuit = True, mustTrumpWhenVoid = True, overtrumpRequired = False,
       declarationsEnabled = True, lastTrickBonus = True, matchTargetScore = 1001 \<rparr>"

text \<open>
  \<open>Array.prototype.sort\<close> with a comparator: a stable sort. An element is placed before
  the first later-sorted element it compares less than or equal to, going from the right,
  so elements that compare equal keep their order.
\<close>

fun insertBy :: "('a \<Rightarrow> 'a \<Rightarrow> int) \<Rightarrow> 'a \<Rightarrow> 'a list \<Rightarrow> 'a list" where
  "insertBy cmp x [] = [x]"
| "insertBy cmp x (y # ys) = (if cmp x y \<le> 0 then x # y # ys else y # insertBy cmp x ys)"

fun sortBy :: "('a \<Rightarrow> 'a \<Rightarrow> int) \<Rightarrow> 'a list \<Rightarrow> 'a list" where
  "sortBy cmp [] = []"
| "sortBy cmp (x # xs) = insertBy cmp x (sortBy cmp xs)"

subsection \<open>Trick evaluation\<close>

text \<open>
  \<open>trump\<close> is typed \<open>Suit\<close> but is \<open>state.trump!\<close> at the call sites, so it can be
  \<open>null\<close> at run time; \<open>cardBeats\<close> tests \<open>!trump\<close> itself.
\<close>

definition isTrump :: "Card \<Rightarrow> Suit option \<Rightarrow> bool" where
  "isTrump c trmp = (Some (suit c) = trmp)"

definition cardBeats :: "Card \<Rightarrow> Card \<Rightarrow> Suit option \<Rightarrow> bool \<Rightarrow> bool" where
  "cardBeats c leadCard trmp isFirstTrump =
     (let cardIsTrump = isTrump c trmp; leadIsTrump = isTrump leadCard trmp in
      if trmp = None then
        suit c = suit leadCard \<and> getRankIndex (rank c) > getRankIndex (rank leadCard)
      else if cardIsTrump \<and> \<not> leadIsTrump then True
      else if \<not> cardIsTrump \<and> leadIsTrump then False
      else if cardIsTrump \<and> leadIsTrump then
        (if isFirstTrump then True
         else getRankIndex (rank c) > getRankIndex (rank leadCard))
      else if suit c = suit leadCard then
        getRankIndex (rank c) > getRankIndex (rank leadCard)
      else False)"

text \<open>
  The loop of \<open>evaluateTrick\<close> over \<open>trick.cards[1..]\<close>, with its three variables
  \<open>bestCard\<close>, \<open>bestPlayer\<close> and \<open>isFirstTrump\<close>.
\<close>

fun evaluateLoop ::
  "TrickCard list \<Rightarrow> Suit option \<Rightarrow> Card \<Rightarrow> PlayerId \<Rightarrow> bool \<Rightarrow> PlayerId" where
  "evaluateLoop [] trmp bestCard bestPlayer isFirstTrump = bestPlayer"
| "evaluateLoop (tc # rest) trmp bestCard bestPlayer isFirstTrump =
     (if cardBeats (played_card tc) bestCard trmp isFirstTrump
      then evaluateLoop rest trmp (played_card tc) (playerId tc)
             (if Some (suit (played_card tc)) = trmp \<and> \<not> isFirstTrump then True else isFirstTrump)
      else evaluateLoop rest trmp bestCard bestPlayer isFirstTrump)"

definition evaluateTrick :: "Trick \<Rightarrow> Suit option \<Rightarrow> error + PlayerId" where
  "evaluateTrick trick trmp =
     (case cards trick of
        [] \<Rightarrow> Inl EmptyTrick
      | [tc] \<Rightarrow> Inr (playerId tc)
      | tc # rest \<Rightarrow>
          Inr (evaluateLoop rest trmp (played_card tc) (playerId tc) (Some (suit (played_card tc)) = trmp)))"

text \<open>\<open>scoreTrick\<close>: both branches of its conditional pick \<open>CARD_VALUES\<close>.\<close>

fun scoreLoop :: "TrickCard list \<Rightarrow> Suit option \<Rightarrow> int \<Rightarrow> int" where
  "scoreLoop [] trmp pts = pts"
| "scoreLoop (tc # rest) trmp pts =
     (let isTrumpCard = (Some (suit (played_card tc)) = trmp);
          vals = (if isTrumpCard then CARD_VALUES else CARD_VALUES)
      in scoreLoop rest trmp (pts + vals (rank (played_card tc))))"

definition scoreTrick :: "Trick \<Rightarrow> Suit option \<Rightarrow> int" where
  "scoreTrick trick trmp = scoreLoop (cards trick) trmp 0"

subsection \<open>Trick evaluation as the specification words it\<close>

text \<open>
  This fold is not in the source; it follows the specification's words, to be compared
  with \<open>evaluateTrick\<close>: "the first trump played in the trick is beaten by any later
  trump", "trump rank comparison only applies among trumps after the first one", and the
  implementer "must track, while folding over the trick, whether a trump has already been
  seen". The flag passed to \<open>cardBeats\<close> says that the best card so far is the first
  trump played. A trump that takes the trick from a card that is not a trump is the first
  trump played (an earlier trump would still be the best card); a trump that takes it
  from a trump is not.
\<close>

fun trackedLoop ::
  "TrickCard list \<Rightarrow> Suit option \<Rightarrow> Card \<Rightarrow> PlayerId \<Rightarrow> bool \<Rightarrow> PlayerId" where
  "trackedLoop [] trmp bestCard bestPlayer bestIsFirstTrump = bestPlayer"
| "trackedLoop (tc # rest) trmp bestCard bestPlayer bestIsFirstTrump =
     (if cardBeats (played_card tc) bestCard trmp bestIsFirstTrump
      then trackedLoop rest trmp (played_card tc) (playerId tc)
             (isTrump (played_card tc) trmp \<and> \<not> isTrump bestCard trmp)
      else trackedLoop rest trmp bestCard bestPlayer bestIsFirstTrump)"

definition trackedEvaluateTrick :: "Trick \<Rightarrow> Suit option \<Rightarrow> error + PlayerId" where
  "trackedEvaluateTrick trick trmp =
     (case cards trick of
        [] \<Rightarrow> Inl EmptyTrick
      | tc # rest \<Rightarrow>
          Inr (trackedLoop rest trmp (played_card tc) (playerId tc)
                 (isTrump (played_card tc) trmp)))"

subsection \<open>Legal moves\<close>

definition getCardsOfSuit :: "Card list \<Rightarrow> Suit \<Rightarrow> Card list" where
  "getCardsOfSuit h s = filter (\<lambda>c. suit c = s) h"

definition getTrumpCards :: "Card list \<Rightarrow> Suit \<Rightarrow> Card list" where
  "getTrumpCards h trmp = filter (\<lambda>c. suit c = trmp) h"

text \<open>
  \<open>legalMoves\<close>. Of the configuration it reads \<open>overtrumpRequired\<close> only. The highest
  trump of the trick is the head of the trick's trumps sorted by descending rank index.
\<close>

definition legalMoves :: "GameState \<Rightarrow> PlayerId \<Rightarrow> Card list" where
  "legalMoves state pid =
     (let h = hand (players state pid) in
      case trump state of
        None \<Rightarrow> h
      | Some trmp \<Rightarrow>
          (case cards (currentTrick state) of
             [] \<Rightarrow> h
           | lead # _ \<Rightarrow>
               (let leadSuit = suit (played_card lead);
                    cardsOfLeadSuit = getCardsOfSuit h leadSuit;
                    trumpCards = getTrumpCards h trmp
                in
                if cardsOfLeadSuit \<noteq> [] then cardsOfLeadSuit
                else if (\<exists>c \<in> set (cards (currentTrick state)). suit (played_card c) = trmp)
                        \<and> trumpCards \<noteq> [] then
                  (if overtrumpRequired (config state) then
                     (case sortBy (\<lambda>a b. getRankIndex (rank (played_card b)) - getRankIndex (rank (played_card a)))
                             (filter (\<lambda>c. suit (played_card c) = trmp) (cards (currentTrick state))) of
                        [] \<Rightarrow> trumpCards
                      | highestTrumpLead # _ \<Rightarrow>
                          (let higherTrumps =
                                 filter (\<lambda>c. getRankIndex (rank c)
                                             > getRankIndex (rank (played_card highestTrumpLead)))
                                   trumpCards
                           in if higherTrumps \<noteq> [] then higherTrumps else trumpCards))
                   else trumpCards)
                else h)))"

subsection \<open>Deck and deal\<close>

definition orderedDeck :: "Card list" where
  "orderedDeck =
     concat (map (\<lambda>s. map (\<lambda>r. \<lparr> suit = s, rank = r \<rparr>) [R7, R8, R9, R10, RJ, RQ, RK, RA])
               [Hearts, Diamonds, Clubs, Spades])"

text \<open>
  The Fisher-Yates loop of \<open>generateDeck\<close>, for \<open>i\<close> from \<open>deck.length - 1\<close> down
  to \<open>1\<close>. The random generator is the parameter \<open>rnd\<close>: \<open>rnd i\<close> stands for the
  draw made at index \<open>i\<close>, and \<open>Math.floor(Math.random() * (i + 1))\<close> lies in
  \<open>0..i\<close>, which the \<open>mod\<close> keeps. The destructuring swap reads both cells before it
  writes them.
\<close>

fun shuffleLoop :: "(nat \<Rightarrow> nat) \<Rightarrow> nat \<Rightarrow> Card list \<Rightarrow> Card list" where
  "shuffleLoop rnd 0 d = d"
| "shuffleLoop rnd (Suc k) d =
     (let i = Suc k; j = rnd i mod (i + 1)
      in shuffleLoop rnd k (d[i := d ! j, j := d ! i]))"

definition generateDeck :: "(nat \<Rightarrow> nat) \<Rightarrow> Card list" where
  "generateDeck rnd = shuffleLoop rnd (length orderedDeck - 1) orderedDeck"

text \<open>
  The innermost loop of \<open>dealCards\<close>: up to \<open>n\<close> times, if the deck is not empty,
  pop its last card onto the hand. The pair is (hand, deck).
\<close>

fun dealLoop :: "nat \<Rightarrow> Card list \<times> Card list \<Rightarrow> Card list \<times> Card list" where
  "dealLoop 0 st = st"
| "dealLoop (Suc n) (h, d) =
     (if d \<noteq> [] then dealLoop n (h @ [last d], butlast d) else dealLoop n (h, d))"

definition dealTo ::
  "PlayerId \<Rightarrow> (PlayerId \<Rightarrow> Card list) \<times> Card list \<Rightarrow> (PlayerId \<Rightarrow> Card list) \<times> Card list" where
  "dealTo p st =
     (case st of (hs, d) \<Rightarrow> (case dealLoop 4 (hs p, d) of (h', d') \<Rightarrow> (hs(p := h'), d')))"

definition dealRound ::
  "(PlayerId \<Rightarrow> Card list) \<times> Card list \<Rightarrow> (PlayerId \<Rightarrow> Card list) \<times> Card list" where
  "dealRound st = fold dealTo PLAYER_ORDER st"

text \<open>
  \<open>a.suit.localeCompare(b.suit)\<close> on the suit names, which are lower-case ASCII words:
  their collation order is the alphabetical one, character by character.
\<close>

fun localeCompare :: "string \<Rightarrow> string \<Rightarrow> int" where
  "localeCompare [] [] = 0"
| "localeCompare [] (y # ys) = - 1"
| "localeCompare (x # xs) [] = 1"
| "localeCompare (x # xs) (y # ys) =
     (if (of_char x :: nat) < of_char y then - 1
      else if (of_char y :: nat) < of_char x then 1
      else localeCompare xs ys)"

definition compareCards :: "Card \<Rightarrow> Card \<Rightarrow> int" where
  "compareCards a b =
     (if suit a \<noteq> suit b then localeCompare (suitName (suit a)) (suitName (suit b))
      else getRankIndex (rank b) - getRankIndex (rank a))"

definition dealCards :: "Card list \<Rightarrow> (PlayerId \<Rightarrow> Card list)" where
  "dealCards d =
     (case dealRound (dealRound (\<lambda>_. [], d)) of
        (hs, _) \<Rightarrow> (\<lambda>p. sortBy compareCards (hs p)))"

text \<open>\<open>Partial<GameConfig>\<close> and the spread \<open>{ ...DEFAULT_CONFIG, ...config }\<close>.\<close>

record PartialConfig =
  p_mustFollowSuit :: "bool option"
  p_mustTrumpWhenVoid :: "bool option"
  p_overtrumpRequired :: "bool option"
  p_declarationsEnabled :: "bool option"
  p_lastTrickBonus :: "bool option"
  p_matchTargetScore :: "int option"

definition emptyConfig :: PartialConfig where
  "emptyConfig =
     \<lparr> p_mustFollowSuit = None, p_mustTrumpWhenVoid = None, p_overtrumpRequired = None,
       p_declarationsEnabled = None, p_lastTrickBonus = None, p_matchTargetScore = None \<rparr>"

definition mergeConfig :: "GameConfig \<Rightarrow> PartialConfig \<Rightarrow> GameConfig" where
  "mergeConfig base c =
     \<lparr> mustFollowSuit = (case p_mustFollowSuit c of None \<Rightarrow> mustFollowSuit base | Some v \<Rightarrow> v),
       mustTrumpWhenVoid =
         (case p_mustTrumpWhenVoid c of None \<Rightarrow> mustTrumpWhenVoid base | Some v \<Rightarrow> v),
       overtrumpRequired =
         (case p_overtrumpRequired c of None \<Rightarrow> overtrumpRequired base | Some v \<Rightarrow> v),
       declarationsEnabled =
         (case p_declarationsEnabled c of None \<Rightarrow> declarationsEnabled base | Some v \<Rightarrow> v),
       lastTrickBonus = (case p_lastTrickBonus c of None \<Rightarrow> lastTrickBonus base | Some v \<Rightarrow> v),
       matchTargetScore =
         (case p_matchTargetScore c of None \<Rightarrow> matchTargetScore base | Some v \<Rightarrow> v) \<rparr>"

definition emptyTrick :: Trick where
  "emptyTrick = \<lparr> cards = [], winner = None, points = 0 \<rparr>"

text \<open>
  \<open>createInitialState\<close>, with the random generator of \<open>generateDeck\<close> as a parameter.
  \<open>remainingDeck\<close> keeps the cards of the deck whose text is not in the set of the
  dealt cards' texts; the talon is \<open>remainingDeck.slice(-2)\<close>, the deck
  \<open>remainingDeck.slice(0, -2)\<close>.
\<close>

definition createInitialState :: "PartialConfig \<Rightarrow> (nat \<Rightarrow> nat) \<Rightarrow> GameState" where
  "createInitialState cfg rnd =
     (let fullConfig = mergeConfig DEFAULT_CONFIG cfg;
          dck = generateDeck rnd;
          hands = dealCards dck;
          dealtCards = set (map cardToString (concat (map hands PLAYER_ORDER)));
          remainingDeck = filter (\<lambda>c. cardToString c \<notin> dealtCards) dck;
          tln = drop (length remainingDeck - 2) remainingDeck;
          dlr = South
      in \<lparr> phase = Bidding,
           deck = take (length remainingDeck - 2) remainingDeck,
           players = (\<lambda>p. case p of
               North \<Rightarrow> \<lparr> player_id = North, name = ''North'', team = Team1,
                           hand = hands North, isDeclarer = False \<rparr>
             | East \<Rightarrow> \<lparr> player_id = East, name = ''East'', team = Team2,
                          hand = hands East, isDeclarer = False \<rparr>
             | South \<Rightarrow> \<lparr> player_id = South, name = ''You'', team = Team1,
                           hand = hands South, isDeclarer = False \<rparr>
             | West \<Rightarrow> \<lparr> player_id = West, name = ''West'', team = Team2,
                          hand = hands West, isDeclarer = False \<rparr>),
           currentPlayer = getNextPlayer dlr,
           declarer = None,
           trump = None,
           currentTrick = emptyTrick,
           tricks = [],
           currentBid = None,
           bids = [],
           declarations = [],
           handScores = \<lparr> team1 = 0, team2 = 0 \<rparr>,
           matchScores = \<lparr> team1 = 0, team2 = 0 \<rparr>,
           events = [],
           config = fullConfig,
           dealer = dlr,
           talon = tln \<rparr>)"

subsection \<open>Declarations\<close>

text \<open>
  The inner \<open>j\<close> loop of \<open>checkDeclarations\<close>, on the sorted suit cards from index
  \<open>i\<close> on: one plus the number of leading steps to the next rank index.
\<close>

fun countConsecutive :: "Card list \<Rightarrow> nat" where
  "countConsecutive (a # b # rest) =
     (if getRankIndex (rank b) = getRankIndex (rank a) + 1
      then Suc (countConsecutive (b # rest)) else 1)"
| "countConsecutive _ = 1"

text \<open>The \<open>i\<close> loop: one scan per start index, on the suffix from that index.\<close>

fun scanRuns :: "PlayerId \<Rightarrow> Card list \<Rightarrow> Declaration list" where
  "scanRuns pid [] = []"
| "scanRuns pid (c # cs) =
     (let consecutive = countConsecutive (c # cs) in
      (if consecutive \<ge> 5 then
         [\<lparr> decl_type = Quint, decl_playerId = pid, decl_cards = take 5 (c # cs),
            decl_points = 100 \<rparr>]
       else if consecutive \<ge> 4 then
         [\<lparr> decl_type = Quarte, decl_playerId = pid, decl_cards = take 4 (c # cs),
            decl_points = 50 \<rparr>]
       else if consecutive \<ge> 3 then
         [\<lparr> decl_type = Tierce, decl_playerId = pid, decl_cards = take 3 (c # cs),
            decl_points = 20 \<rparr>]
       else [])
      @ scanRuns pid cs)"

definition checkDeclarations :: "GameState \<Rightarrow> PlayerId \<Rightarrow> Declaration list" where
  "checkDeclarations state pid =
     (case trump state of
        None \<Rightarrow> []
      | Some trmp \<Rightarrow>
          if \<not> declarationsEnabled (config state) then []
          else
            (let h = hand (players state pid);
                 trumpCards = filter (\<lambda>c. suit c = trmp) h;
                 hasK = (\<exists>c \<in> set trumpCards. rank c = RK);
                 hasQ = (\<exists>c \<in> set trumpCards. rank c = RQ);
                 bela = (if hasK \<and> hasQ then
                           [\<lparr> decl_type = Bela, decl_playerId = pid,
                              decl_cards = filter (\<lambda>c. rank c = RK \<or> rank c = RQ) trumpCards,
                              decl_points = 20 \<rparr>]
                         else [])
             in bela @
                concat (map (\<lambda>s. scanRuns pid
                                (sortBy (\<lambda>a b. getRankIndex (rank a) - getRankIndex (rank b))
                                   (filter (\<lambda>c. suit c = s) h)))
                          [Hearts, Diamonds, Clubs, Spades])))"

subsection \<open>End of hand scoring\<close>

fun trickPointsLoop :: "Trick list \<Rightarrow> int \<times> int \<Rightarrow> int \<times> int" where
  "trickPointsLoop [] acc = acc"
| "trickPointsLoop (t # ts) (p1, p2) =
     (if getPlayerTeamOpt (winner t) = Team1 then trickPointsLoop ts (p1 + points t, p2)
      else trickPointsLoop ts (p1, p2 + points t))"

fun declPointsLoop :: "Declaration list \<Rightarrow> int \<times> int \<Rightarrow> int \<times> int" where
  "declPointsLoop [] acc = acc"
| "declPointsLoop (d # ds) (p1, p2) =
     (if getPlayerTeam (decl_playerId d) = Team1 then declPointsLoop ds (p1 + decl_points d, p2)
      else declPointsLoop ds (p1, p2 + decl_points d))"

text \<open>
  \<open>endOfHandScoring\<close>. With the last-trick bonus on and no completed trick,
  \<open>state.tricks[state.tricks.length - 1]\<close> is \<open>undefined\<close> and reading its
  \<open>winner\<close> throws. The flag the source names \<open>team1MadeContract\<close> is computed from
  the declarer's team, and the two bonus terms are written as the source has them.
\<close>

definition endOfHandScoring :: "GameState \<Rightarrow> error + ScoringResult" where
  "endOfHandScoring state =
     (case (trump state, declarer state) of
        (Some trmp, Some decl) \<Rightarrow>
          (case trickPointsLoop (tricks state) (0, 0) of (tp1, tp2) \<Rightarrow>
           if lastTrickBonus (config state) \<and> tricks state = [] then Inl TypeError
           else
             (case (if lastTrickBonus (config state) then
                      (if getPlayerTeamOpt (winner (last (tricks state))) = Team1
                       then (tp1 + 10, tp2) else (tp1, tp2 + 10))
                    else (tp1, tp2)) of (b1, b2) \<Rightarrow>
              case declPointsLoop (declarations state) (0, 0) of
                (team1Declarations, team2Declarations) \<Rightarrow>
              (let team1Points = b1 + team1Declarations;
                   team2Points = b2 + team2Declarations;
                   declarerTeam = getPlayerTeam decl;
                   contractThreshold = 162;
                   team1MadeContract =
                     (if declarerTeam = Team1 then team1Points > contractThreshold
                      else team2Points > contractThreshold);
                   cBonus = (if team1MadeContract then 90 else 0);
                   newHandScores =
                     \<lparr> team1 = team1Points + (if team1MadeContract then cBonus else 0),
                       team2 = team2Points + (if team1MadeContract then 0 else cBonus) \<rparr>;
                   newMatchScores =
                     \<lparr> team1 = team1 (matchScores state) + team1 newHandScores,
                       team2 = team2 (matchScores state) + team2 newHandScores \<rparr>
               in Inr \<lparr> res_handScores = newHandScores, res_matchScores = newMatchScores,
                        contractBonus = cBonus \<rparr>)))
      | _ \<Rightarrow>
          Inr \<lparr> res_handScores = handScores state, res_matchScores = matchScores state,
                contractBonus = 0 \<rparr>)"

subsection \<open>Transitions\<close>

text \<open>
  Every transition starts from a deep copy of its argument
  (\<open>JSON.parse(JSON.stringify(state))\<close>) and returns the copy; here the argument is a
  value and the result a new value. A transition that throws returns \<open>Inl\<close> and no
  state.
\<close>

fun findIndex :: "('a \<Rightarrow> bool) \<Rightarrow> 'a list \<Rightarrow> nat option" where
  "findIndex P [] = None"
| "findIndex P (x # xs) =
     (if P x then Some 0 else (case findIndex P xs of None \<Rightarrow> None | Some i \<Rightarrow> Some (Suc i)))"

text \<open>\<open>xs.splice(i, 1)\<close>.\<close>

definition splice1 :: "nat \<Rightarrow> 'a list \<Rightarrow> 'a list" where
  "splice1 i xs = take i xs @ drop (Suc i) xs"

text \<open>
  The branch of \<open>applyMove\<close> for a trick that has reached four cards: evaluate, score,
  push the trick to the history, log, reset the trick, and give the lead to the winner.
\<close>

definition completeTrick :: "GameState \<Rightarrow> error + GameState" where
  "completeTrick st =
     (case evaluateTrick (currentTrick st) (trump st) of
        Inl e \<Rightarrow> Inl e
      | Inr w \<Rightarrow>
          (let t1 = (currentTrick st)\<lparr> winner := Some w \<rparr>;
               pts = scoreTrick t1 (trump st);
               t2 = t1\<lparr> points := pts \<rparr>
           in Inr (st\<lparr> tricks := tricks st @ [t2],
                       events := events st @
                         [\<lparr> event_type = Ev_trick_complete, event_playerId = None,
                            event_data = TrickData w pts \<rparr>],
                       currentTrick := emptyTrick,
                       currentPlayer := w \<rparr>)))"

definition applyMove :: "GameState \<Rightarrow> TrickCard \<Rightarrow> error + GameState" where
  "applyMove state move =
     (let player = players state (playerId move) in
      case findIndex (\<lambda>c. suit c = suit (played_card move) \<and> rank c = rank (played_card move)) (hand player) of
        None \<Rightarrow> Inl CardNotInHand
      | Some cardIndex \<Rightarrow>
          (let hand' = splice1 cardIndex (hand player);
               s1 = state\<lparr>
                      players := (players state)(playerId move := player\<lparr> hand := hand' \<rparr>),
                      currentTrick := (currentTrick state)\<lparr>
                        cards := cards (currentTrick state) @
                          [\<lparr> playerId = playerId move, played_card = played_card move \<rparr>] \<rparr>,
                      events := events state @
                        [\<lparr> event_type = Ev_play_card, event_playerId = Some (playerId move),
                           event_data = CardData (played_card move) \<rparr>] \<rparr>
           in
           case (if length (cards (currentTrick s1)) = 4 then completeTrick s1
                 else Inr (s1\<lparr> currentPlayer := getNextPlayer (playerId move) \<rparr>)) of
             Inl e \<Rightarrow> Inl e
           | Inr s2 \<Rightarrow>
               if hand' = [] \<and> phase s2 = Play then
                 (let s3 = s2\<lparr> phase := Scoring \<rparr> in
                  case endOfHandScoring s3 of
                    Inl e \<Rightarrow> Inl e
                  | Inr scores \<Rightarrow>
                      Inr (s3\<lparr> handScores := res_handScores scores,
                               matchScores := res_matchScores scores,
                               events := events s3 @
                                 [\<lparr> event_type = Ev_hand_complete, event_playerId = None,
                                    event_data = ScoresData scores \<rparr>] \<rparr>))
               else Inr s2))"

text \<open>The declaration scan that closes \<open>applyBid\<close> and \<open>applyDealerChoice\<close>.\<close>

definition addDeclarations :: "GameState \<Rightarrow> GameState" where
  "addDeclarations st =
     (if declarationsEnabled (config st) then
        st\<lparr> declarations := declarations st @ concat (map (checkDeclarations st) PLAYER_ORDER) \<rparr>
      else st)"

definition applyBid :: "GameState \<Rightarrow> TrumpCall \<Rightarrow> GameState" where
  "applyBid state bid =
     (let pl = players state (call_playerId bid);
          s1 = state\<lparr>
                 bids := bids state @ [bid],
                 currentBid := Some bid,
                 declarer := Some (call_playerId bid),
                 trump := Some (call_suit bid),
                 players := (players state)(call_playerId bid := pl\<lparr> isDeclarer := True \<rparr>),
                 events := events state @
                   [\<lparr> event_type = Ev_bid, event_playerId = Some (call_playerId bid),
                      event_data = BidData bid \<rparr>] \<rparr>;
          s2 = (if talon s1 \<noteq> [] then
                  s1\<lparr> players := (players s1)(call_playerId bid :=
                                  (players s1 (call_playerId bid))\<lparr>
                                    hand := hand (players s1 (call_playerId bid)) @ talon s1 \<rparr>),
                      talon := [] \<rparr>
                else s1);
          s3 = s2\<lparr> phase := Play, currentPlayer := call_playerId bid \<rparr>
      in addDeclarations s3)"

definition applyPass :: "GameState \<Rightarrow> PlayerId \<Rightarrow> GameState" where
  "applyPass state pid =
     (let s1 = state\<lparr> events := events state @
                 [\<lparr> event_type = Ev_pass, event_playerId = Some pid, event_data = NullData \<rparr>] \<rparr>
      in
      if talon s1 \<noteq> [] then s1\<lparr> currentPlayer := getNextPlayer pid \<rparr>
      else if currentBid s1 \<noteq> None then
        (let lastActions = drop (length (events s1) - 4) (events s1);
             passes = length (filter (\<lambda>e. event_type e = Ev_pass) lastActions)
         in if passes \<ge> 3 then s1\<lparr> phase := Play, currentPlayer := getNextPlayer (dealer s1) \<rparr>
            else s1\<lparr> currentPlayer := getNextPlayer pid \<rparr>)
      else
        (let passes = length (filter (\<lambda>e. event_type e = Ev_pass) (events s1))
         in if passes \<ge> 3 then s1\<lparr> currentPlayer := dealer s1, phase := DealerChoice \<rparr>
            else s1\<lparr> currentPlayer := getNextPlayer pid \<rparr>))"

definition applyDealerChoice :: "GameState \<Rightarrow> Suit \<Rightarrow> GameState" where
  "applyDealerChoice state s =
     (let bid = \<lparr> call_suit = s, call_playerId = dealer state, level = 1 \<rparr>;
          s1 = state\<lparr>
                 bids := bids state @ [bid],
                 currentBid := Some bid,
                 declarer := Some (dealer state),
                 trump := Some s,
                 players := (players state)(dealer state :=
                               (players state (dealer state))\<lparr> isDeclarer := True \<rparr>),
                 events := events state @
                   [\<lparr> event_type = Ev_bid, event_playerId = Some (dealer state),
                      event_data = BidData bid \<rparr>] \<rparr>;
          s2 = s1\<lparr> phase := Play, currentPlayer := dealer s1 \<rparr>
      in addDeclarations s2)"

text \<open>
  The states the engine can produce: an initial state, and whatever a transition returns
  from a reachable state. The transitions check neither the phase nor the turn, so any
  argument is allowed.
\<close>

inductive reachable :: "GameState \<Rightarrow> bool" where
  init: "reachable (createInitialState cfg rnd)"
| move: "reachable s \<Longrightarrow> applyMove s m = Inr s' \<Longrightarrow> reachable s'"
| bid: "reachable s \<Longrightarrow> reachable (applyBid s b)"
| pass: "reachable s \<Longrightarrow> reachable (applyPass s p)"
| dealerChoice: "reachable s \<Longrightarrow> reachable (applyDealerChoice s su)"

section \<open>Example states\<close>

abbreviation mkCard :: "Suit \<Rightarrow> Rank \<Rightarrow> Card" where
  "mkCard s r \<equiv> \<lparr> suit = s, rank = r \<rparr>"

abbreviation played :: "PlayerId \<Rightarrow> Card \<Rightarrow> TrickCard" where
  "played p c \<equiv> \<lparr> playerId = p, played_card = c \<rparr>"

definition examplePlayers ::
  "(PlayerId \<Rightarrow> Card list) \<Rightarrow> PlayerId option \<Rightarrow> PlayerId \<Rightarrow> Player" where
  "examplePlayers hs decl p =
     \<lparr> player_id = p,
       name = (case p of North \<Rightarrow> ''North'' | East \<Rightarrow> ''East'' | South \<Rightarrow> ''You''
               | West \<Rightarrow> ''West''),
       team = getPlayerTeam p, hand = hs p, isDeclarer = (decl = Some p) \<rparr>"

text \<open>
  A trick in which the ace of trumps is led and the seven of trumps follows; the other
  two seats are void in trumps.
\<close>

definition trumpLedTrick :: Trick where
  "trumpLedTrick =
     \<lparr> cards = [played North (mkCard Hearts RA), played East (mkCard Hearts R7),
                played South (mkCard Spades R8), played West (mkCard Spades R9)],
       winner = None, points = 0 \<rparr>"

text \<open>
  A trick with three trumps: the king of trumps is led, the ace and then the queen of
  trumps follow, and the fourth seat, void in trumps, plays a spade.
\<close>

definition threeTrumpsTrick :: Trick where
  "threeTrumpsTrick =
     \<lparr> cards = [played North (mkCard Hearts RK), played East (mkCard Hearts RA),
                played South (mkCard Hearts RQ), played West (mkCard Spades R7)],
       winner = None, points = 0 \<rparr>"

text \<open>
  A first trick. The configuration is the one
  \<open>createInitialState({ mustTrumpWhenVoid: false, declarationsEnabled: false })\<close> builds.
  West has bid hearts (the talon was empty) and leads; the hands are the dealt ones, in
  the order \<open>dealCards\<close> sorts them.
\<close>

definition exampleConfig :: GameConfig where
  "exampleConfig =
     mergeConfig DEFAULT_CONFIG
       (emptyConfig\<lparr> p_mustTrumpWhenVoid := Some False, p_declarationsEnabled := Some False \<rparr>)"

definition exampleBid :: TrumpCall where
  "exampleBid = \<lparr> call_suit = Hearts, call_playerId = West, level = 1 \<rparr>"

definition exampleHands :: "PlayerId \<Rightarrow> Card list" where
  "exampleHands p =
     (case p of
        North \<Rightarrow> [mkCard Diamonds R10, mkCard Diamonds R9, mkCard Diamonds R8, mkCard Diamonds R7,
                  mkCard Hearts R10, mkCard Hearts R9, mkCard Hearts R8, mkCard Hearts R7]
      | East \<Rightarrow> [mkCard Clubs R8, mkCard Clubs R7, mkCard Diamonds RQ, mkCard Diamonds RJ,
                 mkCard Hearts RA, mkCard Hearts RK, mkCard Hearts RQ, mkCard Hearts RJ]
      | South \<Rightarrow> [mkCard Clubs RA, mkCard Clubs RK, mkCard Clubs RQ, mkCard Clubs RJ,
                  mkCard Spades RA, mkCard Spades RK, mkCard Spades RQ, mkCard Spades RJ]
      | West \<Rightarrow> [mkCard Clubs R10, mkCard Clubs R9, mkCard Diamonds RA, mkCard Diamonds RK,
                 mkCard Spades R10, mkCard Spades R9, mkCard Spades R8, mkCard Spades R7])"

text \<open>The deal, as an initial state: bidding, West to speak, the talon empty.\<close>

definition exampleDeal :: GameState where
  "exampleDeal =
     \<lparr> phase = Bidding, deck = [],
       players = examplePlayers exampleHands None,
       currentPlayer = West, declarer = None, trump = None,
       currentTrick = emptyTrick, tricks = [],
       currentBid = None, bids = [], declarations = [],
       handScores = \<lparr> team1 = 0, team2 = 0 \<rparr>, matchScores = \<lparr> team1 = 0, team2 = 0 \<rparr>,
       events = [],
       config = exampleConfig, dealer = South, talon = [] \<rparr>"

text \<open>The state \<open>applyBid\<close> returns for West's bid on that deal.\<close>

definition afterBidState :: GameState where
  "afterBidState =
     \<lparr> phase = Play, deck = [],
       players = examplePlayers exampleHands (Some West),
       currentPlayer = West, declarer = Some West, trump = Some Hearts,
       currentTrick = emptyTrick, tricks = [],
       currentBid = Some exampleBid, bids = [exampleBid], declarations = [],
       handScores = \<lparr> team1 = 0, team2 = 0 \<rparr>, matchScores = \<lparr> team1 = 0, team2 = 0 \<rparr>,
       events = [\<lparr> event_type = Ev_bid, event_playerId = Some West,
                   event_data = BidData exampleBid \<rparr>],
       config = exampleConfig, dealer = South, talon = [] \<rparr>"

text \<open>West has led the king of diamonds; North, who holds four diamonds, is to play.\<close>

definition followState :: GameState where
  "followState =
     afterBidState\<lparr>
       players := examplePlayers
         (exampleHands(West := [mkCard Clubs R10, mkCard Clubs R9, mkCard Diamonds RA,
                                mkCard Spades R10, mkCard Spades R9, mkCard Spades R8,
                                mkCard Spades R7]))
         (Some West),
       currentPlayer := North,
       currentTrick := \<lparr> cards = [played West (mkCard Diamonds RK)], winner = None, points = 0 \<rparr>,
       events := events afterBidState @
         [\<lparr> event_type = Ev_play_card, event_playerId = Some West,
            event_data = CardData (mkCard Diamonds RK) \<rparr>] \<rparr>"

text \<open>
  West has led the seven of spades and North, void in spades, has played the seven of
  hearts (a trump). East, void in spades too, holds four trumps and four other cards
  and is to play.
\<close>

definition voidState :: GameState where
  "voidState =
     afterBidState\<lparr>
       players := examplePlayers
         (exampleHands(
            West := [mkCard Clubs R10, mkCard Clubs R9, mkCard Diamonds RA, mkCard Diamonds RK,
                     mkCard Spades R10, mkCard Spades R9, mkCard Spades R8],
            North := [mkCard Diamonds R10, mkCard Diamonds R9, mkCard Diamonds R8,
                      mkCard Diamonds R7, mkCard Hearts R10, mkCard Hearts R9, mkCard Hearts R8]))
         (Some West),
       currentPlayer := East,
       currentTrick := \<lparr> cards = [played West (mkCard Spades R7), played North (mkCard Hearts R7)],
                         winner = None, points = 0 \<rparr>,
       events := events afterBidState @
         [\<lparr> event_type = Ev_play_card, event_playerId = Some West,
            event_data = CardData (mkCard Spades R7) \<rparr>,
          \<lparr> event_type = Ev_play_card, event_playerId = Some North,
            event_data = CardData (mkCard Hearts R7) \<rparr>] \<rparr>"

text \<open>
  The end of a hand. East has bid hearts and holds the seven to the jack of hearts, for
  which \<open>checkDeclarations\<close> records a quint, a quarte and a tierce; no other seat holds
  a declaration. The eight tricks are listed with the winners and points \<open>applyMove\<close>
  gave them. The event log is left empty: the scoring does not read it.
\<close>

definition contractHands :: "PlayerId \<Rightarrow> Card list" where
  "contractHands p =
     (case p of
        North \<Rightarrow> [mkCard Clubs R9, mkCard Clubs R7, mkCard Diamonds R9, mkCard Diamonds R7,
                  mkCard Hearts RQ, mkCard Spades RA, mkCard Spades RJ, mkCard Spades R8]
      | East \<Rightarrow> [mkCard Clubs R8, mkCard Diamonds R8, mkCard Hearts RJ, mkCard Hearts R10,
                 mkCard Hearts R9, mkCard Hearts R8, mkCard Hearts R7, mkCard Spades R9]
      | South \<Rightarrow> [mkCard Clubs RQ, mkCard Clubs R10, mkCard Diamonds RQ, mkCard Diamonds R10,
                  mkCard Hearts RK, mkCard Spades RQ, mkCard Spades R10, mkCard Spades R7]
      | West \<Rightarrow> [mkCard Clubs RA, mkCard Clubs RK, mkCard Clubs RJ, mkCard Diamonds RA,
                 mkCard Diamonds RK, mkCard Diamonds RJ, mkCard Hearts RA, mkCard Spades RK])"

definition contractDeal :: GameState where
  "contractDeal =
     exampleDeal\<lparr> players := examplePlayers contractHands None, config := DEFAULT_CONFIG \<rparr>"

definition contractBid :: TrumpCall where
  "contractBid = \<lparr> call_suit = Hearts, call_playerId = East, level = 1 \<rparr>"

definition contractTricks :: "Trick list" where
  "contractTricks =
     [\<lparr> cards = [played East (mkCard Spades R9), played South (mkCard Spades R10),
                 played West (mkCard Spades RK), played North (mkCard Spades RA)],
        winner = Some North, points = 25 \<rparr>,
      \<lparr> cards = [played North (mkCard Hearts RQ), played East (mkCard Hearts RJ),
                 played South (mkCard Hearts RK), played West (mkCard Hearts RA)],
        winner = Some West, points = 20 \<rparr>,
      \<lparr> cards = [played West (mkCard Diamonds RA), played North (mkCard Diamonds R7),
                 played East (mkCard Diamonds R8), played South (mkCard Diamonds R10)],
        winner = Some West, points = 21 \<rparr>,
      \<lparr> cards = [played West (mkCard Diamonds RK), played North (mkCard Diamonds R9),
                 played East (mkCard Hearts R7), played South (mkCard Diamonds RQ)],
        winner = Some East, points = 7 \<rparr>,
      \<lparr> cards = [played East (mkCard Clubs R8), played South (mkCard Clubs R10),
                 played West (mkCard Clubs RA), played North (mkCard Clubs R7)],
        winner = Some West, points = 21 \<rparr>,
      \<lparr> cards = [played West (mkCard Clubs RK), played North (mkCard Clubs R9),
                 played East (mkCard Hearts R8), played South (mkCard Clubs RQ)],
        winner = Some East, points = 7 \<rparr>,
      \<lparr> cards = [played East (mkCard Hearts R9), played South (mkCard Spades R7),
                 played West (mkCard Diamonds RJ), played North (mkCard Spades R8)],
        winner = Some East, points = 2 \<rparr>,
      \<lparr> cards = [played East (mkCard Hearts R10), played South (mkCard Spades RQ),
                 played West (mkCard Clubs RJ), played North (mkCard Spades RJ)],
        winner = Some East, points = 17 \<rparr>]"

definition contractDeclarations :: "Declaration list" where
  "contractDeclarations =
     [\<lparr> decl_type = Quint, decl_playerId = East,
        decl_cards = [mkCard Hearts R7, mkCard Hearts R8, mkCard Hearts R9, mkCard Hearts R10,
                      mkCard Hearts RJ],
        decl_points = 100 \<rparr>,
      \<lparr> decl_type = Quarte, decl_playerId = East,
        decl_cards = [mkCard Hearts R8, mkCard Hearts R9, mkCard Hearts R10, mkCard Hearts RJ],
        decl_points = 50 \<rparr>,
      \<lparr> decl_type = Tierce, decl_playerId = East,
        decl_cards = [mkCard Hearts R9, mkCard Hearts R10, mkCard Hearts RJ],
        decl_points = 20 \<rparr>]"

definition contractState :: GameState where
  "contractState =
     \<lparr> phase = Scoring, deck = [],
       players = examplePlayers (\<lambda>_. []) (Some East),
       currentPlayer = East, declarer = Some East, trump = Some Hearts,
       currentTrick = emptyTrick, tricks = contractTricks,
       currentBid = Some contractBid, bids = [contractBid],
       declarations = contractDeclarations,
       handScores = \<lparr> team1 = 0, team2 = 0 \<rparr>, matchScores = \<lparr> team1 = 0, team2 = 0 \<rparr>,
       events = [],
       config = DEFAULT_CONFIG, dealer = South, talon = [] \<rparr>"

section \<open>Invariants and auxiliary notions\<close>

text \<open>A random generator whose every draw is \<open>0\<close>.\<close>

definition zeroDraws :: "nat \<Rightarrow> nat" where
  "zeroDraws i = 0"

text \<open>
  A reachable position: on the deal of that generator West bids hearts and leads the
  eight of clubs, North follows with the seven, and East, void in clubs, plays the eight
  of diamonds. South is to play the fourth card of the trick.
\<close>

definition openingState :: GameState where
  "openingState = applyBid (createInitialState emptyConfig zeroDraws) exampleBid"

definition threeCardsState :: GameState where
  "threeCardsState =
     projr (applyMove
       (projr (applyMove
          (projr (applyMove openingState (played West (mkCard Clubs R8))))
          (played North (mkCard Clubs R7))))
       (played East (mkCard Diamonds R8)))"

text \<open>
  Another reachable position. The draws \<open>zeroTrickDraws\<close> shuffle the deck so that West
  holds the seven of clubs, North the eight, East the nine, and South no club. West bids
  hearts and leads the seven of clubs, North and East follow with the eight and the nine,
  and South discards the seven of diamonds: a complete trick without a scoring card.
\<close>

definition zeroTrickDraws :: "nat \<Rightarrow> nat" where
  "zeroTrickDraws i =
     [0, 0, 2, 0, 1, 0, 4, 1, 0, 7, 7, 6, 5, 5, 5, 4, 11, 0, 16, 16, 0, 10, 9, 8, 15, 23, 22,
      18, 14, 13, 21, 17] ! i"

definition zeroTrickOpening :: GameState where
  "zeroTrickOpening = applyBid (createInitialState emptyConfig zeroTrickDraws) exampleBid"

definition zeroTrickThreeCards :: GameState where
  "zeroTrickThreeCards =
     projr (applyMove
       (projr (applyMove
          (projr (applyMove zeroTrickOpening (played West (mkCard Clubs R7))))
          (played North (mkCard Clubs R8))))
       (played East (mkCard Clubs R9)))"

definition zeroTrickState :: GameState where
  "zeroTrickState =
     projr (applyMove zeroTrickThreeCards (played South (mkCard Diamonds R7)))"

text \<open>
  The trick invariant: the current trick has at most four cards; every trick of the state
  (the current one and the completed ones) has a winner exactly when it has four cards;
  and its points are the sum of its cards' values (\<open>CARD_VALUES\<close>) when it has four
  cards and the initial zero otherwise.
\<close>

definition trickInv :: "GameState \<Rightarrow> bool" where
  "trickInv s =
     (length (cards (currentTrick s)) \<le> 4
      \<and> (\<forall>t \<in> set (currentTrick s # tricks s).
            (winner t \<noteq> None) = (length (cards t) = 4)
            \<and> points t =
                (if length (cards t) = 4
                 then sum_list (map (\<lambda>tc. CARD_VALUES (rank (played_card tc))) (cards t))
                 else 0)))"

text \<open>What the transitions in fact maintain: the current trick is always short of four
  cards and unset, and every completed trick has four cards and is set.\<close>

definition strongInv :: "GameState \<Rightarrow> bool" where
  "strongInv s =
     (length (cards (currentTrick s)) < 4 \<and> winner (currentTrick s) = None
      \<and> points (currentTrick s) = 0
      \<and> (\<forall>t \<in> set (tricks s). length (cards t) = 4 \<and> winner t \<noteq> None
            \<and> points t = scoreTrick t None))"

text \<open>All cards in the four hands, and the number of pass events in the log.\<close>

definition allCards :: "(PlayerId \<Rightarrow> Card list) \<Rightarrow> Card set" where
  "allCards hs = set (hs North) \<union> set (hs East) \<union> set (hs South) \<union> set (hs West)"

definition passCount :: "GameState \<Rightarrow> nat" where
  "passCount s = length (filter (\<lambda>e. event_type e = Ev_pass) (events s))"

section \<open>Card text encoding: properties\<close>

lemma toUpperChar_first_letters:
  "toUpperChar CHR ''h'' = CHR ''H''" "toUpperChar CHR ''d'' = CHR ''D''"
  "toUpperChar CHR ''c'' = CHR ''C''" "toUpperChar CHR ''s'' = CHR ''S''"
  by code_simp+

lemma toLowerChar_first_letters:
  "toLowerChar CHR ''H'' = CHR ''h''" "toLowerChar CHR ''D'' = CHR ''d''"
  "toLowerChar CHR ''C'' = CHR ''c''" "toLowerChar CHR ''S'' = CHR ''s''"
  by code_simp+

lemma stringToCard_cardToString:
  "stringToCard (cardToString c) =
     \<lparr> raw_rank = rankName (rank c), raw_suit = take 1 (suitName (suit c)) \<rparr>"
  by (cases "suit c"; cases "rank c")
     (simp_all add: stringToCard_def cardToString_def toUpperCase_def toLowerCase_def
        toUpperChar_first_letters toLowerChar_first_letters)

lemma roundtrip_fails_for_every_card:
  "stringToCard (cardToString c) \<noteq> cardValue c"
  by (cases "suit c") (simp_all add: stringToCard_cardToString cardValue_def)

text \<open>
  C10. The claim: \<open>stringToCard (cardToString card)\<close> equals the original card. On the
  code the rank comes back, but the suit comes back as the lower-cased first letter of
  its name: the ten of hearts encodes as \<open>10H\<close> and decodes to rank \<open>10\<close>, suit
  \<open>h\<close>, which is not the suit value \<open>hearts\<close>.
\<close>

theorem C10_roundtrip_ten_of_hearts:
  "cardToString \<lparr> suit = Hearts, rank = R10 \<rparr> = ''10H''
   \<and> stringToCard ''10H'' = \<lparr> raw_rank = ''10'', raw_suit = ''h'' \<rparr>
   \<and> cardValue \<lparr> suit = Hearts, rank = R10 \<rparr> = \<lparr> raw_rank = ''10'', raw_suit = ''hearts'' \<rparr>
   \<and> stringToCard (cardToString \<lparr> suit = Hearts, rank = R10 \<rparr>)
       \<noteq> cardValue \<lparr> suit = Hearts, rank = R10 \<rparr>"
  by (simp add: stringToCard_def cardToString_def cardValue_def toUpperCase_def toLowerCase_def
        toUpperChar_first_letters toLowerChar_first_letters)

section \<open>Trick evaluation: properties\<close>

lemma evaluateLoop_seat:
  "evaluateLoop rest trmp bestCard bestPlayer f \<in> insert bestPlayer (playerId ` set rest)"
  by (induction rest arbitrary: bestCard bestPlayer f) auto

lemma evaluateTrick_seat_of_trick:
  "cards t \<noteq> [] \<Longrightarrow> \<exists>p. evaluateTrick t trmp = Inr p \<and> p \<in> playerId ` set (cards t)"
proof (cases "cards t")
  case Nil
  assume "cards t \<noteq> []"
  with Nil show ?thesis by simp
next
  case (Cons tc rest)
  have "evaluateLoop rest trmp (played_card tc) (playerId tc) (Some (suit (played_card tc)) = trmp)
          \<in> insert (playerId tc) (playerId ` set rest)"
    by (rule evaluateLoop_seat)
  with Cons show ?thesis
    by (cases rest) (auto simp: evaluateTrick_def)
qed

text \<open>
  With two trumps in the trick the code and the fold the specification words agree: on
  \<open>trumpLedTrick\<close> the seven, the later trump, takes the trick from the ace, the first
  trump played.
\<close>

lemma two_trumps_agree:
  "evaluateTrick trumpLedTrick (Some Hearts) = Inr East"
  "trackedEvaluateTrick trumpLedTrick (Some Hearts) = Inr East"
  by (simp_all add: evaluateTrick_def trackedEvaluateTrick_def trumpLedTrick_def cardBeats_def
        isTrump_def)

text \<open>
  C1. The claim: the seat \<open>evaluateTrick\<close> returns holds a card that no other card of
  the trick beats under \<open>cardBeats\<close>, the flag being tracked as the specification
  describes (the first trump played is beaten by any later trump; among the trumps after
  it the rank decides). The returned seat is one of the trick's seats
  (\<open>evaluateTrick_seat_of_trick\<close>), but the flag is never cleared. On
  \<open>threeTrumpsTrick\<close> (king, ace, queen of trumps, then a spade) the ace takes the
  trick from the king, the first trump played; the code then lets the queen take it from
  the ace, because it still passes \<open>isFirstTrump = true\<close>, and returns South. With the
  flag tracked, the queen does not beat the ace and the fold returns East. South's queen
  is beaten by East's ace, whatever the flag, and the ace is beaten by no other card of
  the trick.
\<close>

theorem C1_evaluateTrick_stale_first_trump_flag:
  "evaluateTrick threeTrumpsTrick (Some Hearts) = Inr South
   \<and> trackedEvaluateTrick threeTrumpsTrick (Some Hearts) = Inr East
   \<and> cardBeats (mkCard Hearts RQ) (mkCard Hearts RA) (Some Hearts) True
   \<and> \<not> cardBeats (mkCard Hearts RQ) (mkCard Hearts RA) (Some Hearts) False
   \<and> cardBeats (mkCard Hearts RA) (mkCard Hearts RQ) (Some Hearts) False
   \<and> cardBeats (mkCard Hearts RA) (mkCard Hearts RQ) (Some Hearts) True
   \<and> \<not> cardBeats (mkCard Hearts RK) (mkCard Hearts RA) (Some Hearts) False
   \<and> \<not> cardBeats (mkCard Spades R7) (mkCard Hearts RA) (Some Hearts) False"
  by (simp add: evaluateTrick_def trackedEvaluateTrick_def threeTrumpsTrick_def cardBeats_def
        isTrump_def)

section \<open>Legal moves: properties\<close>

lemmas example_state_defs =
  followState_def voidState_def afterBidState_def examplePlayers_def exampleHands_def
  exampleConfig_def exampleBid_def mergeConfig_def emptyConfig_def DEFAULT_CONFIG_def
  emptyTrick_def

text \<open>The example states are the ones the transitions return on the example deal.\<close>

lemma applyBid_exampleDeal: "applyBid exampleDeal exampleBid = afterBidState"
  by (simp add: applyBid_def addDeclarations_def exampleDeal_def example_state_defs Let_def
        fun_eq_iff split: PlayerId.splits)

lemma applyMove_afterBidState:
  "applyMove afterBidState (played West (mkCard Diamonds RK)) = Inr followState"
  by (simp add: applyMove_def example_state_defs splice1_def Let_def fun_eq_iff
        split: PlayerId.splits)

lemma applyMove_to_voidState:
  "applyMove (projr (applyMove afterBidState (played West (mkCard Spades R7))))
     (played North (mkCard Hearts R7)) = Inr voidState"
  by (simp add: applyMove_def example_state_defs splice1_def Let_def fun_eq_iff
        split: PlayerId.splits)

text \<open>
  C6. In phase \<open>play\<close>, for a seat whose hand is not empty, \<open>legalMoves\<close> returns a
  non-empty list of cards of that hand.
\<close>

theorem C6_legalMoves_nonempty_subset:
  assumes "phase s = Play" and "hand (players s p) \<noteq> []"
  shows "legalMoves s p \<noteq> [] \<and> set (legalMoves s p) \<subseteq> set (hand (players s p))"
  using assms(2) unfolding legalMoves_def getCardsOfSuit_def getTrumpCards_def Let_def
  by (auto split: option.splits list.splits)

theorem C6_witness:
  "phase voidState = Play \<and> hand (players voidState South) \<noteq> []
   \<and> legalMoves voidState South \<noteq> []
   \<and> set (legalMoves voidState South) \<subseteq> set (hand (players voidState South))"
  using C6_legalMoves_nonempty_subset [of voidState South]
  by (simp add: example_state_defs)

text \<open>
  C7. With trump fixed and a card already in the current trick, a seat that holds a card
  of the suit led may play exactly its cards of that suit.
\<close>

theorem C7_legalMoves_follow_suit:
  assumes "trump s = Some trmp" and "cards (currentTrick s) = lead # rest"
    and "\<exists>c \<in> set (hand (players s p)). suit c = suit (played_card lead)"
  shows "legalMoves s p = filter (\<lambda>c. suit c = suit (played_card lead)) (hand (players s p))"
  using assms unfolding legalMoves_def getCardsOfSuit_def getTrumpCards_def Let_def
  by (auto simp: filter_empty_conv)

theorem C7_witness:
  "trump followState = Some Hearts
   \<and> cards (currentTrick followState) = [played West (mkCard Diamonds RK)]
   \<and> (\<exists>c \<in> set (hand (players followState North)). suit c = Diamonds)
   \<and> legalMoves followState North =
       [mkCard Diamonds R10, mkCard Diamonds R9, mkCard Diamonds R8, mkCard Diamonds R7]"
  using C7_legalMoves_follow_suit
    [of followState Hearts "played West (mkCard Diamonds RK)" "[]" North]
  by (simp add: example_state_defs)

text \<open>\<open>legalMoves\<close> does not read \<open>mustTrumpWhenVoid\<close>.\<close>

lemma legalMoves_ignores_mustTrumpWhenVoid:
  "legalMoves (s\<lparr> config := (config s)\<lparr> mustTrumpWhenVoid := b \<rparr> \<rparr>) p = legalMoves s p"
  by (simp add: legalMoves_def cong: option.case_cong list.case_cong if_cong)

text \<open>
  C8. The claim: with \<open>mustTrumpWhenVoid\<close> false, a seat that is void in the suit led
  and holds trumps may play any card of its hand although a trump is in the trick. On the
  code the flag changes nothing: in \<open>voidState\<close> the flag is false, East is void in
  spades, a trump is in the trick, and East may play its four trumps only; the eight of
  clubs, which East holds, is not legal.
\<close>

theorem C8_flag_false_still_restricts_to_trumps:
  "mustTrumpWhenVoid (config voidState) = False
   \<and> map played_card (cards (currentTrick voidState)) = [mkCard Spades R7, mkCard Hearts R7]
   \<and> trump voidState = Some Hearts
   \<and> getCardsOfSuit (hand (players voidState East)) Spades = []
   \<and> mkCard Clubs R8 \<in> set (hand (players voidState East))
   \<and> legalMoves voidState East =
       [mkCard Hearts RA, mkCard Hearts RK, mkCard Hearts RQ, mkCard Hearts RJ]"
  by (simp add: legalMoves_def getCardsOfSuit_def getTrumpCards_def example_state_defs)

section \<open>Card play: properties\<close>

lemma findIndex_None_iff: "findIndex P xs = None \<longleftrightarrow> (\<forall>x \<in> set xs. \<not> P x)"
  by (induction xs) (auto split: option.splits)

lemma findIndex_Some_less: "findIndex P xs = Some i \<Longrightarrow> i < length xs"
  by (induction xs arbitrary: i) (auto split: option.splits if_splits)

lemma Card_eq_iff: "(c :: Card) = k \<longleftrightarrow> suit c = suit k \<and> rank c = rank k"
  by (cases c; cases k) simp

lemma findIndex_card_None_iff:
  "findIndex (\<lambda>c. suit c = suit k \<and> rank c = rank k) h = None \<longleftrightarrow> (k :: Card) \<notin> set h"
proof -
  have "(\<lambda>c. suit c = suit k \<and> rank c = rank k) = (\<lambda>c. c = k)"
    by (simp add: fun_eq_iff Card_eq_iff [of _ k])
  then show ?thesis by (auto simp: findIndex_None_iff)
qed

lemma evaluateTrick_error: "evaluateTrick t trmp = Inl e \<Longrightarrow> e = EmptyTrick \<and> cards t = []"
  by (auto simp: evaluateTrick_def split: list.splits)

lemma completeTrick_error:
  "completeTrick st = Inl e \<Longrightarrow> e = EmptyTrick \<and> cards (currentTrick st) = []"
  by (auto simp: completeTrick_def Let_def split: sum.splits dest: evaluateTrick_error)

lemma endOfHandScoring_error: "endOfHandScoring st = Inl e \<Longrightarrow> e = TypeError"
  by (auto simp: endOfHandScoring_def Let_def split: option.splits prod.splits if_splits)

lemma applyMove_CardNotInHand_iff:
  "(applyMove s m = Inl CardNotInHand) = (played_card m \<notin> set (hand (players s (playerId m))))"
proof (cases "findIndex (\<lambda>c. suit c = suit (played_card m) \<and> rank c = rank (played_card m))
                (hand (players s (playerId m)))")
  case None
  then show ?thesis by (simp add: applyMove_def findIndex_card_None_iff [symmetric])
next
  case (Some i)
  then have "played_card m \<in> set (hand (players s (playerId m)))"
    using findIndex_card_None_iff [of "played_card m" "hand (players s (playerId m))"] by auto
  moreover have "applyMove s m \<noteq> Inl CardNotInHand"
    using Some
    by (auto simp: applyMove_def Let_def split: sum.splits if_splits
        dest: completeTrick_error endOfHandScoring_error)
  ultimately show ?thesis by simp
qed

lemma applyMove_accepts_card_in_hand:
  assumes "played_card m \<in> set (hand (players s (playerId m)))"
    and "1 < length (hand (players s (playerId m)))"
  shows "\<exists>s'. applyMove s m = Inr s'"
proof -
  obtain i where i:
    "findIndex (\<lambda>c. suit c = suit (played_card m) \<and> rank c = rank (played_card m))
       (hand (players s (playerId m))) = Some i"
    using assms(1) findIndex_card_None_iff [of "played_card m" "hand (players s (playerId m))"]
    by auto
  then have "i < length (hand (players s (playerId m)))" by (rule findIndex_Some_less)
  with assms(2) have ne: "splice1 i (hand (players s (playerId m))) \<noteq> []"
    by (auto simp: splice1_def)
  show ?thesis using i ne
    by (auto simp: applyMove_def Let_def split: sum.splits dest!: completeTrick_error)
qed

lemma followState_seven_of_hearts:
  "mkCard Hearts R7 \<in> set (hand (players followState North))"
  "1 < length (hand (players followState North))"
  "mkCard Hearts R7 \<notin> set (legalMoves followState North)"
  by (simp_all add: legalMoves_def getCardsOfSuit_def example_state_defs)

text \<open>
  C5, as stated, fails: in \<open>followState\<close> diamonds are led and North holds diamonds, so
  the seven of hearts is in North's hand and outside \<open>legalMoves\<close>; \<open>applyMove\<close>
  accepts it and returns a state.
\<close>

theorem C5_counterexample:
  "mkCard Hearts R7 \<in> set (hand (players followState North))
   \<and> mkCard Hearts R7 \<notin> set (legalMoves followState North)
   \<and> \<not> isl (applyMove followState (played North (mkCard Hearts R7)))"
proof -
  have "\<exists>s'. applyMove followState (played North (mkCard Hearts R7)) = Inr s'"
    using applyMove_accepts_card_in_hand [of "played North (mkCard Hearts R7)" followState]
      followState_seven_of_hearts(1,2)
    by simp
  then have "\<not> isl (applyMove followState (played North (mkCard Hearts R7)))"
    by auto
  then show ?thesis by (simp add: followState_seven_of_hearts)
qed

text \<open>
  C5, amended. \<open>applyMove\<close> raises its not-in-hand error exactly when the card is not
  in the acting seat's hand; it does not consult \<open>legalMoves\<close>, and a card of the hand is
  accepted (a state is returned) whenever it is not the seat's last card. A rejected
  move returns an error and no state; the argument is a value and stays as it was.
\<close>

theorem C5_applyMove_rejects_iff_not_in_hand:
  "(applyMove s m = Inl CardNotInHand) = (played_card m \<notin> set (hand (players s (playerId m))))
   \<and> (played_card m \<in> set (hand (players s (playerId m)))
        \<and> 1 < length (hand (players s (playerId m)))
      \<longrightarrow> (\<exists>s'. applyMove s m = Inr s'))"
  using applyMove_CardNotInHand_iff [of s m] applyMove_accepts_card_in_hand [of m s]
  by blast

theorem C5_witness:
  "mkCard Hearts R7 \<in> set (hand (players followState North))
   \<and> 1 < length (hand (players followState North))
   \<and> applyMove followState (played North (mkCard Hearts R7)) \<noteq> Inl CardNotInHand
   \<and> (\<exists>s'. applyMove followState (played North (mkCard Hearts R7)) = Inr s')"
  using C5_applyMove_rejects_iff_not_in_hand [of followState "played North (mkCard Hearts R7)"]
    followState_seven_of_hearts(1,2)
  by simp

section \<open>End of hand scoring: properties\<close>

text \<open>
  The declarations of \<open>contractState\<close> are those \<open>applyBid\<close> records for East's bid on
  the deal \<open>contractHands\<close>, and its tricks carry the winners and points that
  \<open>evaluateTrick\<close> and \<open>scoreTrick\<close> compute.
\<close>

lemma contractDeal_declarations:
  "declarations (applyBid contractDeal contractBid) = contractDeclarations"
  unfolding contractDeal_def exampleDeal_def by code_simp

lemma contractTricks_evaluated:
  "map (\<lambda>t. (evaluateTrick t (Some Hearts), scoreTrick t (Some Hearts))) contractTricks =
     [(Inr North, 25), (Inr West, 20), (Inr West, 21), (Inr East, 7),
      (Inr West, 21), (Inr East, 7), (Inr East, 2), (Inr East, 17)]"
  by code_simp

lemma contractTricks_recorded:
  "map winner contractTricks =
     [Some North, Some West, Some West, Some East, Some West, Some East, Some East, Some East]"
  "map points contractTricks = [25, 20, 21, 7, 21, 7, 2, 17]"
  by (simp_all add: contractTricks_def)

text \<open>
  C2. The claim: when the declarer's team has more than 162 points before the bonus, the
  90 points go to the declarer's team, whichever team that is. In \<open>contractState\<close> the
  declarer is East (team 2); team 1 has 25 points and team 2 has 275 before the bonus;
  the code adds the 90 points to team 1.
\<close>

theorem C2_bonus_goes_to_team1:
  "declarer contractState = Some East \<and> getPlayerTeam East = Team2
   \<and> trickPointsLoop (tricks contractState) (0, 0) = (25, 95)
   \<and> declPointsLoop (declarations contractState) (0, 0) = (0, 170)
   \<and> endOfHandScoring contractState =
       Inr \<lparr> res_handScores = \<lparr> team1 = 115, team2 = 275 \<rparr>,
             res_matchScores = \<lparr> team1 = 115, team2 = 275 \<rparr>,
             contractBonus = 90 \<rparr>"
  by (simp add: endOfHandScoring_def contractState_def contractTricks_def
        contractDeclarations_def DEFAULT_CONFIG_def Let_def)

section \<open>Deck and deal: properties\<close>

lemma length_shuffleLoop: "length (shuffleLoop rnd k d) = length d"
  by (induction k arbitrary: d) (simp_all add: Let_def)

lemma length_orderedDeck: "length orderedDeck = 32"
  by (simp add: orderedDeck_def)

lemma length_generateDeck: "length (generateDeck rnd) = 32"
  unfolding generateDeck_def length_shuffleLoop by (rule length_orderedDeck)

lemma dealLoop_props:
  "dealLoop n (h, d) = (h', d') \<Longrightarrow>
     length h' = length h + min n (length d) \<and> length d' = length d - n
     \<and> set h' \<union> set d' = set h \<union> set d"
proof (induction n arbitrary: h d)
  case 0
  then show ?case by simp
next
  case (Suc n)
  show ?case
  proof (cases "d = []")
    case True
    with Suc show ?thesis by simp
  next
    case False
    then have d: "d = butlast d @ [last d]" by simp
    from Suc.prems False have "dealLoop n (h @ [last d], butlast d) = (h', d')" by simp
    from Suc.IH [OF this] have
      "length h' = length (h @ [last d]) + min n (length (butlast d))"
      "length d' = length (butlast d) - n"
      "set h' \<union> set d' = set (h @ [last d]) \<union> set (butlast d)" by auto
    moreover have "set (h @ [last d]) \<union> set (butlast d) = set h \<union> set d"
      using d by (metis Un_assoc Un_commute set_append)
    moreover have "Suc (min n (length d - 1)) = min (Suc n) (length d)"
      using False by (cases d) simp_all
    ultimately show ?thesis by simp
  qed
qed

lemma dealTo_props:
  assumes "dealTo p (hs, d) = (hs', d')" and "4 \<le> length d"
  shows "length (hs' p) = length (hs p) + 4" and "\<And>q. q \<noteq> p \<Longrightarrow> hs' q = hs q"
    and "length d' = length d - 4" and "allCards hs' \<union> set d' = allCards hs \<union> set d"
proof -
  obtain h' where dl: "dealLoop 4 (hs p, d) = (h', d')" and hs': "hs' = hs(p := h')"
    using assms(1) by (auto simp: dealTo_def split: prod.splits)
  note P = dealLoop_props [OF dl]
  show "length (hs' p) = length (hs p) + 4" using P assms(2) hs' by simp
  show "\<And>q. q \<noteq> p \<Longrightarrow> hs' q = hs q" using hs' by simp
  show "length d' = length d - 4" using P by simp
  have "set h' \<union> set d' = set (hs p) \<union> set d" using P by simp
  then show "allCards hs' \<union> set d' = allCards hs \<union> set d"
    unfolding hs' allCards_def by (cases p) auto
qed

lemma dealRound_props:
  assumes "dealRound (hs, d) = (hs', d')" and "16 \<le> length d"
  shows "length (hs' q) = length (hs q) + 4"
    and "length d' = length d - 16" and "allCards hs' \<union> set d' = allCards hs \<union> set d"
proof -
  obtain h1 d1 where s1: "dealTo North (hs, d) = (h1, d1)" by (cases "dealTo North (hs, d)")
  obtain h2 d2 where s2: "dealTo East (h1, d1) = (h2, d2)" by (cases "dealTo East (h1, d1)")
  obtain h3 d3 where s3: "dealTo South (h2, d2) = (h3, d3)" by (cases "dealTo South (h2, d2)")
  obtain h4 d4 where s4: "dealTo West (h3, d3) = (h4, d4)" by (cases "dealTo West (h3, d3)")
  have e: "hs' = h4" "d' = d4"
    using assms(1) s1 s2 s3 s4 by (simp_all add: dealRound_def PLAYER_ORDER_def)
  have l0: "4 \<le> length d" using assms(2) by simp
  note p1 = dealTo_props [OF s1 l0]
  have l1: "4 \<le> length d1" using p1(3) assms(2) by simp
  note p2 = dealTo_props [OF s2 l1]
  have l2: "4 \<le> length d2" using p2(3) p1(3) assms(2) by simp
  note p3 = dealTo_props [OF s3 l2]
  have l3: "4 \<le> length d3" using p3(3) p2(3) p1(3) assms(2) by simp
  note p4 = dealTo_props [OF s4 l3]
  show "length d' = length d - 16" using e p1(3) p2(3) p3(3) p4(3) by simp
  show "allCards hs' \<union> set d' = allCards hs \<union> set d"
    using e p1(4) p2(4) p3(4) p4(4) by simp
  show "length (hs' q) = length (hs q) + 4"
  proof (cases q)
    case North
    then show ?thesis using e p1(1) p2(2) [of North] p3(2) [of North] p4(2) [of North] by simp
  next
    case East
    then show ?thesis using e p1(2) [of East] p2(1) p3(2) [of East] p4(2) [of East] by simp
  next
    case South
    then show ?thesis using e p1(2) [of South] p2(2) [of South] p3(1) p4(2) [of South] by simp
  next
    case West
    then show ?thesis using e p1(2) [of West] p2(2) [of West] p3(2) [of West] p4(1) by simp
  qed
qed

lemma length_insertBy: "length (insertBy cmp x xs) = Suc (length xs)"
  by (induction xs) simp_all

lemma length_sortBy: "length (sortBy cmp xs) = length xs"
  by (induction xs) (simp_all add: length_insertBy)

lemma set_insertBy: "set (insertBy cmp x xs) = insert x (set xs)"
  by (induction xs) auto

lemma set_sortBy: "set (sortBy cmp xs) = set xs"
  by (induction xs) (simp_all add: set_insertBy)

lemma dealCards_props:
  assumes "length d = 32"
  shows "length (dealCards d p) = 8" and "allCards (dealCards d) = set d"
proof -
  obtain h1 d1 where r1: "dealRound (\<lambda>_. [], d) = (h1, d1)" by (cases "dealRound (\<lambda>_. [], d)")
  obtain h2 d2 where r2: "dealRound (h1, d1) = (h2, d2)" by (cases "dealRound (h1, d1)")
  have dc: "dealCards d = (\<lambda>p. sortBy compareCards (h2 p))"
    using r1 r2 by (simp add: dealCards_def)
  have l0: "16 \<le> length d" using assms by simp
  note p1 = dealRound_props [OF r1 l0]
  have l1: "16 \<le> length d1" using p1(2) assms by simp
  note p2 = dealRound_props [OF r2 l1]
  show "length (dealCards d p) = 8"
    using dc p1(1) [of p] p2(1) [of p] by (simp add: length_sortBy)
  have "d2 = []" using p2(2) p1(2) assms by simp
  then have "allCards h2 = set d"
    using p1(3) p2(3) by (simp add: allCards_def)
  then show "allCards (dealCards d) = set d"
    by (simp add: dc allCards_def set_sortBy)
qed

lemma createInitialState_hand:
  "hand (players (createInitialState cfg rnd) p) = dealCards (generateDeck rnd) p"
  unfolding createInitialState_def Let_def by (cases p) simp_all

lemma createInitialState_talon: "talon (createInitialState cfg rnd) = []"
proof -
  let ?d = "generateDeck rnd"
  have "allCards (dealCards ?d) = set ?d"
    by (rule dealCards_props) (rule length_generateDeck)
  then have "set ?d \<subseteq> set (concat (map (dealCards ?d) PLAYER_ORDER))"
    by (auto simp: allCards_def PLAYER_ORDER_def)
  then have "filter (\<lambda>c. cardToString c \<notin> set (map cardToString (concat (map (dealCards ?d) PLAYER_ORDER)))) ?d = []"
    by (auto simp: filter_empty_conv)
  then show ?thesis
    by (simp add: createInitialState_def Let_def)
qed

text \<open>
  C3. The claim: after the initial deal every seat holds 8 cards and the talon holds the
  2 undealt cards. The deck has 32 cards and \<open>dealCards\<close> deals all of them, 8 to each
  seat, so no card is left: for every configuration and every shuffle the talon (and
  the remaining deck) is empty.
\<close>

theorem C3_deal_leaves_no_talon:
  "length (hand (players (createInitialState cfg rnd) p)) = 8
   \<and> talon (createInitialState cfg rnd) = []"
  by (simp add: createInitialState_hand createInitialState_talon dealCards_props(1)
        length_generateDeck)

section \<open>Bidding: properties\<close>

lemma createInitialState_fields:
  "phase (createInitialState cfg rnd) = Bidding"
  "events (createInitialState cfg rnd) = []"
  "currentBid (createInitialState cfg rnd) = None"
  "trump (createInitialState cfg rnd) = None"
  "dealer (createInitialState cfg rnd) = South"
  "currentPlayer (createInitialState cfg rnd) = West"
  "currentTrick (createInitialState cfg rnd) = emptyTrick"
  "tricks (createInitialState cfg rnd) = []"
  unfolding createInitialState_def Let_def by simp_all

lemma applyPass_keeps:
  "talon (applyPass s p) = talon s"
  "players (applyPass s p) = players s"
  "currentBid (applyPass s p) = currentBid s"
  "trump (applyPass s p) = trump s"
  "dealer (applyPass s p) = dealer s"
  "currentTrick (applyPass s p) = currentTrick s"
  "tricks (applyPass s p) = tricks s"
  "events (applyPass s p) =
     events s @ [\<lparr> event_type = Ev_pass, event_playerId = Some p, event_data = NullData \<rparr>]"
  by (simp_all add: applyPass_def Let_def)

lemma passCount_applyPass: "passCount (applyPass s p) = Suc (passCount s)"
  by (simp add: passCount_def applyPass_keeps)

lemma applyPass_no_bid:
  assumes "talon s = []" and "currentBid s = None"
  shows "phase (applyPass s p) = (if 2 \<le> passCount s then DealerChoice else phase s)"
    and "currentPlayer (applyPass s p) = (if 2 \<le> passCount s then dealer s else getNextPlayer p)"
  using assms by (auto simp: applyPass_def Let_def passCount_def)

text \<open>While the talon holds a card, a pass only hands the turn to the next seat.\<close>

lemma applyPass_talon_available:
  assumes "talon s \<noteq> []"
  shows "phase (applyPass s p) = phase s" and "currentPlayer (applyPass s p) = getNextPlayer p"
  using assms by (simp_all add: applyPass_def Let_def)

text \<open>
  C4, as stated, fails: from the initial state (here with the default configuration and
  the shuffle \<open>zeroDraws\<close>) three passes, by West, North and East, already leave the
  bidding phase, and the talon has no card.
\<close>

theorem C4_counterexample:
  "phase (applyPass (applyPass (applyPass (createInitialState emptyConfig zeroDraws) West) North)
            East) = DealerChoice
   \<and> length (talon (applyPass (applyPass (applyPass
               (createInitialState emptyConfig zeroDraws) West) North) East)) = 0"
  by (simp add: createInitialState_fields createInitialState_talon applyPass_keeps
        applyPass_no_bid passCount_applyPass passCount_def)

text \<open>
  C4, amended. From the initial state of \<open>createInitialState\<close>, with each pass made by
  the seat whose turn it is, the phase is still \<open>bidding\<close> after no, one and two passes
  and becomes \<open>dealerChoice\<close> with the third pass, when the three seats other than the
  dealer (West, North, East) have passed and no bid was made. At that point the dealer is
  the current player, holds 8 cards, no trump or bid is set, and the talon is as the deal
  left it.
\<close>

theorem C4_three_passes_reach_dealerChoice:
  "(let s0 = createInitialState cfg rnd;
        s1 = applyPass s0 (currentPlayer s0);
        s2 = applyPass s1 (currentPlayer s1);
        s3 = applyPass s2 (currentPlayer s2)
    in phase s0 = Bidding \<and> phase s1 = Bidding \<and> phase s2 = Bidding \<and> phase s3 = DealerChoice
       \<and> [currentPlayer s0, currentPlayer s1, currentPlayer s2] = [West, North, East]
       \<and> dealer s3 = South \<and> currentPlayer s3 = dealer s3
       \<and> length (hand (players s3 (dealer s3))) = 8
       \<and> talon s3 = talon s0 \<and> trump s3 = None \<and> currentBid s3 = None)"
proof -
  define s0 where "s0 = createInitialState cfg rnd"
  define s1 where "s1 = applyPass s0 West"
  define s2 where "s2 = applyPass s1 North"
  define s3 where "s3 = applyPass s2 East"
  have f0: "phase s0 = Bidding" "currentBid s0 = None" "trump s0 = None" "dealer s0 = South"
    "currentPlayer s0 = West" "talon s0 = []" "passCount s0 = 0"
    "length (hand (players s0 South)) = 8"
    by (simp_all add: s0_def createInitialState_fields createInitialState_talon passCount_def
        createInitialState_hand dealCards_props(1) length_generateDeck)
  have f1: "phase s1 = Bidding" "currentPlayer s1 = North" "talon s1 = []" "currentBid s1 = None"
    "passCount s1 = 1"
    using f0 by (simp_all add: s1_def applyPass_no_bid applyPass_keeps passCount_applyPass)
  have f2: "phase s2 = Bidding" "currentPlayer s2 = East" "talon s2 = []" "currentBid s2 = None"
    "passCount s2 = 2"
    using f1 by (simp_all add: s2_def applyPass_no_bid applyPass_keeps passCount_applyPass)
  have f3: "phase s3 = DealerChoice" "currentPlayer s3 = South" "talon s3 = []"
    "currentBid s3 = None" "dealer s3 = South" "trump s3 = None"
    "length (hand (players s3 South)) = 8"
    using f0 f2 by (simp_all add: s3_def s2_def s1_def applyPass_no_bid applyPass_keeps)
  show ?thesis
    using f0 f1 f2 f3
    by (simp add: Let_def s0_def [symmetric] s1_def [symmetric] s2_def [symmetric]
        s3_def [symmetric])
qed

section \<open>Trick invariant\<close>

lemma scoreLoop_trump: "scoreLoop cs a n = scoreLoop cs b n"
  by (induction cs arbitrary: n) (simp_all add: Let_def)

lemma scoreTrick_trump: "scoreTrick t a = scoreTrick t b"
  unfolding scoreTrick_def by (rule scoreLoop_trump)

lemma scoreLoop_sum:
  "scoreLoop cs trmp n = n + sum_list (map (\<lambda>tc. CARD_VALUES (rank (played_card tc))) cs)"
  by (induction cs arbitrary: n) (simp_all add: Let_def)

lemma scoreTrick_sum:
  "scoreTrick t trmp = sum_list (map (\<lambda>tc. CARD_VALUES (rank (played_card tc))) (cards t))"
  by (simp add: scoreTrick_def scoreLoop_sum)

lemma strongInv_trickInv: "strongInv s \<Longrightarrow> trickInv s"
  unfolding strongInv_def trickInv_def
  by (auto simp: scoreTrick_sum)

lemma applyBid_tricks:
  "currentTrick (applyBid s b) = currentTrick s" "tricks (applyBid s b) = tricks s"
  by (simp_all add: applyBid_def addDeclarations_def Let_def)

lemma applyDealerChoice_tricks:
  "currentTrick (applyDealerChoice s su) = currentTrick s"
  "tricks (applyDealerChoice s su) = tricks s"
  by (simp_all add: applyDealerChoice_def addDeclarations_def Let_def)

lemma completeTrick_tricks:
  assumes "completeTrick st = Inr s'"
  shows "currentTrick s' = emptyTrick"
    and "\<exists>w. tricks s' = tricks st @
           [(currentTrick st)\<lparr> winner := Some w, points := scoreTrick (currentTrick st) None \<rparr>]"
    and "phase s' = phase st"
  using assms scoreTrick_trump [of _ "trump st" None]
  by (auto simp: completeTrick_def Let_def scoreTrick_def split: sum.splits)

lemma applyMove_tricks:
  assumes "applyMove s m = Inr s'"
  shows "if length (cards (currentTrick s)) = 3
         then currentTrick s' = emptyTrick
              \<and> (\<exists>w. tricks s' = tricks s @
                    [(currentTrick s)\<lparr> cards := cards (currentTrick s) @ [played (playerId m) (played_card m)],
                       winner := Some w,
                       points := scoreTrick ((currentTrick s)\<lparr> cards := cards (currentTrick s) @ [played (playerId m) (played_card m)] \<rparr>) None \<rparr>])
         else currentTrick s' = (currentTrick s)\<lparr> cards := cards (currentTrick s) @ [played (playerId m) (played_card m)] \<rparr>
              \<and> tricks s' = tricks s"
proof -
  let ?h = "hand (players s (playerId m))"
  let ?ct = "(currentTrick s)\<lparr> cards := cards (currentTrick s) @ [played (playerId m) (played_card m)] \<rparr>"
  have "findIndex (\<lambda>c. suit c = suit (played_card m) \<and> rank c = rank (played_card m)) ?h \<noteq> None"
  proof
    assume "findIndex (\<lambda>c. suit c = suit (played_card m) \<and> rank c = rank (played_card m)) ?h = None"
    then have "applyMove s m = Inl CardNotInHand" by (simp add: applyMove_def)
    with assms show False by simp
  qed
  then obtain i where i: "findIndex (\<lambda>c. suit c = suit (played_card m) \<and> rank c = rank (played_card m)) ?h = Some i"
    by auto
  define s1 where "s1 = s\<lparr>
      players := (players s)(playerId m := (players s (playerId m))\<lparr> hand := splice1 i ?h \<rparr>),
      currentTrick := ?ct,
      events := events s @
        [\<lparr> event_type = Ev_play_card, event_playerId = Some (playerId m),
           event_data = CardData (played_card m) \<rparr>] \<rparr>"
  define r where "r = (if length (cards (currentTrick s1)) = 4 then completeTrick s1
                       else Inr (s1\<lparr> currentPlayer := getNextPlayer (playerId m) \<rparr>))"
  have s1: "currentTrick s1 = ?ct" "tricks s1 = tricks s"
    by (simp_all add: s1_def)
  obtain s2 where s2: "r = Inr s2" and s': "currentTrick s' = currentTrick s2" "tricks s' = tricks s2"
    using assms i unfolding applyMove_def Let_def r_def s1_def
    by (auto split: sum.splits if_splits)
  show ?thesis
  proof (cases "length (cards (currentTrick s)) = 3")
    case True
    then have "completeTrick s1 = Inr s2" using s2 by (simp add: r_def s1)
    from completeTrick_tricks(1,2) [OF this] True s' s1 show ?thesis
      by auto
  next
    case False
    then have "s2 = s1\<lparr> currentPlayer := getNextPlayer (playerId m) \<rparr>"
      using s2 by (simp add: r_def s1)
    with False s' s1 show ?thesis by simp
  qed
qed

lemma strongInv_init: "strongInv (createInitialState cfg rnd)"
  by (simp add: strongInv_def createInitialState_fields emptyTrick_def)

lemma strongInv_applyMove:
  assumes "strongInv s" and "applyMove s m = Inr s'"
  shows "strongInv s'"
proof (cases "length (cards (currentTrick s)) = 3")
  case True
  with applyMove_tricks [OF assms(2)] obtain w where
    "currentTrick s' = emptyTrick"
    "tricks s' = tricks s @
       [(currentTrick s)\<lparr> cards := cards (currentTrick s) @ [played (playerId m) (played_card m)],
          winner := Some w,
          points := scoreTrick ((currentTrick s)\<lparr> cards := cards (currentTrick s) @ [played (playerId m) (played_card m)] \<rparr>) None \<rparr>]"
    by auto
  with assms(1) True show ?thesis
    by (auto simp: strongInv_def emptyTrick_def scoreTrick_def)
next
  case False
  with applyMove_tricks [OF assms(2)] have
    "currentTrick s' = (currentTrick s)\<lparr> cards := cards (currentTrick s) @ [played (playerId m) (played_card m)] \<rparr>"
    "tricks s' = tricks s" by auto
  with assms(1) False show ?thesis
    by (auto simp: strongInv_def)
qed

lemma reachable_strongInv: "reachable s \<Longrightarrow> strongInv s"
proof (induction rule: reachable.induct)
  case (init cfg rnd)
  show ?case by (rule strongInv_init)
next
  case (move s m s')
  then show ?case using strongInv_applyMove by blast
next
  case (bid s b)
  then show ?case by (simp add: strongInv_def applyBid_tricks)
next
  case (pass s p)
  then show ?case by (simp add: strongInv_def applyPass_keeps)
next
  case (dealerChoice s su)
  then show ?case by (simp add: strongInv_def applyDealerChoice_tricks)
qed

lemma reachable_projr:
  "reachable s \<Longrightarrow> \<not> isl (applyMove s m) \<Longrightarrow> reachable (projr (applyMove s m))"
  by (cases "applyMove s m") (auto intro: reachable.move)

text \<open>
  The four cards of the trick without a scoring card are accepted, each is played by the
  seat whose turn it is, and each is a legal move.
\<close>

lemma zeroTrick_moves_accepted:
  "\<not> isl (applyMove zeroTrickOpening (played West (mkCard Clubs R7)))"
  "\<not> isl (applyMove (projr (applyMove zeroTrickOpening (played West (mkCard Clubs R7))))
          (played North (mkCard Clubs R8)))"
  "\<not> isl (applyMove
       (projr (applyMove
          (projr (applyMove zeroTrickOpening (played West (mkCard Clubs R7))))
          (played North (mkCard Clubs R8))))
       (played East (mkCard Clubs R9)))"
  "\<not> isl (applyMove zeroTrickThreeCards (played South (mkCard Diamonds R7)))"
  unfolding zeroTrickThreeCards_def zeroTrickOpening_def by code_simp+

lemma zeroTrick_moves_legal:
  "currentPlayer zeroTrickOpening = West
   \<and> mkCard Clubs R7 \<in> set (legalMoves zeroTrickOpening West)"
  "currentPlayer (projr (applyMove zeroTrickOpening (played West (mkCard Clubs R7)))) = North
   \<and> mkCard Clubs R8 \<in> set (legalMoves
         (projr (applyMove zeroTrickOpening (played West (mkCard Clubs R7)))) North)"
  "currentPlayer (projr (applyMove
          (projr (applyMove zeroTrickOpening (played West (mkCard Clubs R7))))
          (played North (mkCard Clubs R8)))) = East
   \<and> mkCard Clubs R9 \<in> set (legalMoves (projr (applyMove
          (projr (applyMove zeroTrickOpening (played West (mkCard Clubs R7))))
          (played North (mkCard Clubs R8)))) East)"
  "currentPlayer zeroTrickThreeCards = South
   \<and> mkCard Diamonds R7 \<in> set (legalMoves zeroTrickThreeCards South)"
  unfolding zeroTrickThreeCards_def zeroTrickOpening_def by code_simp+

lemma reachable_zeroTrickState: "reachable zeroTrickState"
proof -
  have "reachable zeroTrickOpening"
    unfolding zeroTrickOpening_def by (intro reachable.bid reachable.init)
  then have "reachable zeroTrickThreeCards"
    unfolding zeroTrickThreeCards_def
    by (intro reachable_projr zeroTrick_moves_accepted(1,2,3))
  then show ?thesis
    unfolding zeroTrickState_def
    by (intro reachable_projr zeroTrick_moves_accepted(4))
qed

lemma zeroTrickState_tricks:
  "map (\<lambda>t. (map played_card (cards t), winner t, points t)) (tricks zeroTrickState) =
     [([mkCard Clubs R7, mkCard Clubs R8, mkCard Clubs R9, mkCard Diamonds R7], Some East, 0)]"
  unfolding zeroTrickState_def zeroTrickThreeCards_def zeroTrickOpening_def by code_simp

text \<open>
  C9, as stated, fails in its middle part: the points of a trick are not a sign of its
  having four cards. In the reachable state \<open>zeroTrickState\<close> the one completed trick
  has four cards and a winner, and its points are zero, the value they were initialised
  with, because sevens, eights and nines count nothing.
\<close>

theorem C9_counterexample:
  "reachable zeroTrickState
   \<and> map (\<lambda>t. (length (cards t), winner t, points t)) (tricks zeroTrickState) =
       [(4, Some East, 0)]"
proof -
  have "map (\<lambda>t. (length (cards t), winner t, points t)) (tricks zeroTrickState) =
          map (\<lambda>(cs, w, n). (length cs, w, n))
            (map (\<lambda>t. (map played_card (cards t), winner t, points t)) (tricks zeroTrickState))"
    by (simp add: comp_def)
  then show ?thesis
    by (simp add: zeroTrickState_tricks reachable_zeroTrickState)
qed

text \<open>
  C9, amended. In every reachable state, and again after each of the four transitions,
  the current trick has between 0 and 4 cards; a trick has a winner if and only if it
  has four cards; the points of a trick with four cards are the sum of its cards' values
  (which is zero when it holds no scoring card), and the points of a shorter trick are
  zero. A move that brings the current trick to four cards appends that trick to the
  history and leaves the current trick empty; any other move leaves the history as it
  was.
\<close>

theorem C9_trick_invariant:
  assumes "reachable s"
  shows "trickInv s
    \<and> (\<forall>m s'. applyMove s m = Inr s' \<longrightarrow>
          trickInv s'
          \<and> (if length (cards (currentTrick s)) = 3
              then length (tricks s') = Suc (length (tricks s))
                   \<and> cards (last (tricks s')) =
                       cards (currentTrick s) @ [played (playerId m) (played_card m)]
                   \<and> currentTrick s' = emptyTrick
              else tricks s' = tricks s))
    \<and> trickInv (applyBid s b) \<and> trickInv (applyPass s p) \<and> trickInv (applyDealerChoice s su)"
proof -
  have "trickInv s'" if "applyMove s m = Inr s'" for m s'
    using reachable.move [OF assms that] by (intro strongInv_trickInv reachable_strongInv)
  moreover have "if length (cards (currentTrick s)) = 3
                 then length (tricks s') = Suc (length (tricks s))
                      \<and> cards (last (tricks s')) =
                          cards (currentTrick s) @ [played (playerId m) (played_card m)]
                      \<and> currentTrick s' = emptyTrick
                 else tricks s' = tricks s"
    if "applyMove s m = Inr s'" for m s'
    using applyMove_tricks [OF that] by (auto split: if_splits)
  moreover have "trickInv s" "trickInv (applyBid s b)" "trickInv (applyPass s p)"
    "trickInv (applyDealerChoice s su)"
    using assms by (auto intro!: strongInv_trickInv reachable_strongInv reachable.intros)
  ultimately show ?thesis by blast
qed

text \<open>
  The invariant at work: \<open>threeCardsState\<close> is reachable and has three cards in the
  current trick; South's queen of clubs is accepted, completes the trick, and the
  resulting state has one more completed trick, worth the queen's three points, and an
  empty current trick.
\<close>

lemma opening_moves_accepted:
  "\<not> isl (applyMove openingState (played West (mkCard Clubs R8)))"
  "\<not> isl (applyMove (projr (applyMove openingState (played West (mkCard Clubs R8))))
          (played North (mkCard Clubs R7)))"
  "\<not> isl (applyMove
       (projr (applyMove
          (projr (applyMove openingState (played West (mkCard Clubs R8))))
          (played North (mkCard Clubs R7))))
       (played East (mkCard Diamonds R8)))"
  "\<not> isl (applyMove threeCardsState (played South (mkCard Clubs RQ)))"
  "length (cards (currentTrick threeCardsState)) = 3"
  "map played_card (cards (currentTrick threeCardsState)) =
     [mkCard Clubs R8, mkCard Clubs R7, mkCard Diamonds R8]"
  unfolding threeCardsState_def openingState_def by code_simp+

lemma reachable_threeCardsState: "reachable threeCardsState"
proof -
  have "reachable openingState"
    unfolding openingState_def by (intro reachable.bid reachable.init)
  then show ?thesis
    unfolding threeCardsState_def
    by (intro reachable_projr opening_moves_accepted(1,2,3))
qed

theorem C9_witness:
  "reachable threeCardsState \<and> trickInv threeCardsState
   \<and> length (cards (currentTrick threeCardsState)) = 3
   \<and> \<not> isl (applyMove threeCardsState (played South (mkCard Clubs RQ)))
   \<and> trickInv (projr (applyMove threeCardsState (played South (mkCard Clubs RQ))))
   \<and> length (tricks (projr (applyMove threeCardsState (played South (mkCard Clubs RQ)))))
       = Suc (length (tricks threeCardsState))
   \<and> winner (last (tricks (projr (applyMove threeCardsState
         (played South (mkCard Clubs RQ)))))) \<noteq> None
   \<and> points (last (tricks (projr (applyMove threeCardsState
         (played South (mkCard Clubs RQ)))))) = 3
   \<and> currentTrick (projr (applyMove threeCardsState (played South (mkCard Clubs RQ))))
       = emptyTrick"
proof -
  obtain s' where s': "applyMove threeCardsState (played South (mkCard Clubs RQ)) = Inr s'"
    using opening_moves_accepted(4)
    by (cases "applyMove threeCardsState (played South (mkCard Clubs RQ))") auto
  note inv = C9_trick_invariant [OF reachable_threeCardsState, of exampleBid South Hearts]
  from inv s' have inv': "trickInv s'" by blast
  from inv s' opening_moves_accepted(5) have
    t: "length (tricks s') = Suc (length (tricks threeCardsState))"
       "cards (last (tricks s')) =
          cards (currentTrick threeCardsState) @ [played South (mkCard Clubs RQ)]"
       "currentTrick s' = emptyTrick"
    by (auto split: if_splits)
  from t(1) have "tricks s' \<noteq> []" by auto
  then have "last (tricks s') \<in> set (currentTrick s' # tricks s')" by simp
  with inv' have l: "(winner (last (tricks s')) \<noteq> None) = (length (cards (last (tricks s'))) = 4)"
    "points (last (tricks s')) =
       (if length (cards (last (tricks s'))) = 4
        then sum_list (map (\<lambda>tc. CARD_VALUES (rank (played_card tc))) (cards (last (tricks s'))))
        else 0)"
    unfolding trickInv_def by blast+
  have "sum_list (map (\<lambda>tc. CARD_VALUES (rank (played_card tc)))
                    (cards (currentTrick threeCardsState))) =
        sum_list (map (\<lambda>c. CARD_VALUES (rank c))
                    (map played_card (cards (currentTrick threeCardsState))))"
    by (simp add: comp_def)
  then have z: "sum_list (map (\<lambda>tc. CARD_VALUES (rank (played_card tc)))
                    (cards (currentTrick threeCardsState))) = 0"
    by (simp add: opening_moves_accepted(6))
  have "winner (last (tricks s')) \<noteq> None" "points (last (tricks s')) = 3"
    using l t(2) opening_moves_accepted(5) z by simp_all
  then show ?thesis
    using inv inv' t s' reachable_threeCardsState opening_moves_accepted(5)
    by simp
qed

end
